theory Spec2Isabelle
  imports Complex_Main "HOL-Library.Multiset"
begin

section \<open>Python values and exceptions\<close>

text \<open>
  The program is a Streamlit dashboard written in Python. Exceptions that the modelled
  code can raise are values of \<open>py_error\<close>; a computation that may raise returns
  \<open>py_error + 'a\<close>, with \<open>Inl\<close> for the exception.
\<close>

datatype py_error =
    IndexError | KeyError | TypeError | ValueError | AttributeError | OverflowError

text \<open>
  Indexing a Python list with an integer: a negative index counts from the end, and an
  index outside the list raises \<open>IndexError\<close>.
\<close>

definition py_index :: "'a list \<Rightarrow> int \<Rightarrow> py_error + 'a" where
  "py_index xs i =
     (if 0 \<le> i \<and> i < int (length xs) then Inr (xs ! nat i)
      else if i < 0 \<and> - int (length xs) \<le> i then Inr (xs ! nat (int (length xs) + i))
      else Inl IndexError)"

text \<open>
  Python's built-in \<open>round(x)\<close> with one argument returns an integer and rounds a tie to
  the even neighbour. Finite numbers (Python ints and finite floats) are modelled by the
  rationals they denote, and float division by the exact quotient.
\<close>

definition py_round :: "rat \<Rightarrow> int" where
  "py_round x =
     (let f = \<lfloor>x\<rfloor>; d = x - of_int f
      in if d < 1 / 2 then f
         else if 1 / 2 < d then f + 1
         else if even f then f else f + 1)"

text \<open>
  A Python number, as the program meets it: \<open>Num d\<close> is a finite number (an int or a
  float of the API's JSON) with the value \<open>d\<close>; \<open>NaN\<close>, \<open>PosInf\<close> and \<open>NegInf\<close> are
  the floats that are not finite (the forecast table stores NaN for a missing number, and
  a JSON number beyond the float range is read as an infinity). Arithmetic on \<open>Num\<close> is
  exact where Python's is in floating point: the two agree on the directions of the
  degrees 0 to 360 and of realistic magnitudes, and may differ in the direction, though
  not in its being one, for magnitudes beyond the precision of a float. An int too
  large for a float, on which Python's division raises \<open>OverflowError\<close>, is not among
  the values \<open>Num\<close> stands for; that the conversion returns a direction is stated
  for magnitudes below \<open>2 ^ 1023\<close>.
\<close>

datatype pynum = Num rat | NaN | PosInf | NegInf

section \<open>Wind direction\<close>

text \<open>
  The argument of \<open>get_wind_direction\<close> is \<open>None\<close> or a number. For the float NaN
  (which the forecast table stores for an entry without a wind degree) \<open>round\<close> raises
  \<open>ValueError\<close>, and for an infinity it raises \<open>OverflowError\<close>.
\<close>

definition directions :: "string list" where
  "directions = [''N'', ''NNE'', ''NE'', ''ENE'', ''E'', ''ESE'', ''SE'', ''SSE'',
                 ''S'', ''SSW'', ''SW'', ''WSW'', ''W'', ''WNW'', ''NW'', ''NNW'']"

definition wind_index :: "rat \<Rightarrow> int" where
  "wind_index deg =
     py_round (deg / (360 / of_nat (length directions))) mod int (length directions)"

definition get_wind_direction :: "pynum option \<Rightarrow> py_error + string" where
  "get_wind_direction deg =
     (case deg of
        None \<Rightarrow> Inr ''N/A''
      | Some NaN \<Rightarrow> Inl ValueError
      | Some PosInf \<Rightarrow> Inl OverflowError
      | Some NegInf \<Rightarrow> Inl OverflowError
      | Some (Num d) \<Rightarrow> py_index directions (wind_index d))"

section \<open>Card rows of a day\<close>

text \<open>
  \<open>df_day.iloc[i]\<close> reads row \<open>i\<close> of the day's table by position and raises
  \<open>IndexError\<close> outside it. \<open>card_rows\<close> is the double loop of \<open>display_forecast\<close>
  over \<open>range(num_rows)\<close> and \<open>range(start_card_index, end_card_index)\<close>: one list per
  row of cards, holding what each \<open>iloc\<close> read returned.
\<close>

definition iloc :: "'a list \<Rightarrow> nat \<Rightarrow> py_error + 'a" where
  "iloc df i = (if i < length df then Inr (df ! i) else Inl IndexError)"

definition cols_per_row :: nat where
  "cols_per_row = 4"

definition card_rows :: "'a list \<Rightarrow> (py_error + 'a) list list" where
  "card_rows df_day =
     (let num_cards = length df_day;
          num_rows = (num_cards + cols_per_row - 1) div cols_per_row
      in map (\<lambda>row_idx.
                let start_card_index = row_idx * cols_per_row;
                    end_card_index = min (start_card_index + cols_per_row) num_cards
                in map (\<lambda>internal_idx. iloc df_day internal_idx)
                       [start_card_index ..< end_card_index])
             [0 ..< num_rows])"

section \<open>Dates and times\<close>

text \<open>
  Python's \<open>datetime\<close> module, as far as the program uses it. A \<open>date\<close> is a day of
  the proleptic Gregorian calendar in the years 1 to 9999, and its ordinal counts days
  from 1 for 0001-01-01. The functions below follow the module's reference
  implementation (\<open>_ymd2ord\<close>, \<open>_ord2ymd\<close> and the tables they read); the assertions of
  \<open>_ord2ymd\<close> are left out.
\<close>

record date =
  year :: int
  month :: int
  day :: int

record datetime = date +
  hour :: int
  minute :: int
  second :: int

record timedelta =
  days :: int
  seconds :: int

definition MAXORDINAL :: int where
  "MAXORDINAL = 3652059"

definition DAYS_IN_MONTH :: "int list" where
  "DAYS_IN_MONTH = [-1, 31, 28, 31, 30, 31, 30, 31, 31, 30, 31, 30, 31]"

definition DAYS_BEFORE_MONTH :: "int list" where
  "DAYS_BEFORE_MONTH = [-1, 0, 31, 59, 90, 120, 151, 181, 212, 243, 273, 304, 334]"

definition is_leap :: "int \<Rightarrow> bool" where
  "is_leap y = (y mod 4 = 0 \<and> (y mod 100 \<noteq> 0 \<or> y mod 400 = 0))"

definition days_before_year :: "int \<Rightarrow> int" where
  "days_before_year y0 = (let y = y0 - 1 in y * 365 + y div 4 - y div 100 + y div 400)"

definition days_in_month :: "int \<Rightarrow> int \<Rightarrow> int" where
  "days_in_month y m = (if m = 2 \<and> is_leap y then 29 else DAYS_IN_MONTH ! nat m)"

definition days_before_month :: "int \<Rightarrow> int \<Rightarrow> int" where
  "days_before_month y m =
     DAYS_BEFORE_MONTH ! nat m + (if 2 < m \<and> is_leap y then 1 else 0)"

definition ymd2ord :: "int \<Rightarrow> int \<Rightarrow> int \<Rightarrow> int" where
  "ymd2ord y m d = days_before_year y + days_before_month y m + d"

definition ord2ymd :: "int \<Rightarrow> int \<times> int \<times> int" where
  "ord2ymd n0 =
     (let n = n0 - 1;
          n400 = n div 146097; n = n mod 146097;
          n100 = n div 36524; n = n mod 36524;
          n4 = n div 1461; n = n mod 1461;
          n1 = n div 365; n = n mod 365;
          y = n400 * 400 + 1 + n100 * 100 + n4 * 4 + n1
      in if n1 = 4 \<or> n100 = 4 then (y - 1, 12, 31)
         else
           let leapyear = (n1 = 3 \<and> (n4 \<noteq> 24 \<or> n100 = 3));
               m = (n + 50) div 32;
               preceding = DAYS_BEFORE_MONTH ! nat m + (if 2 < m \<and> leapyear then 1 else 0)
           in if n < preceding
              then (y, m - 1,
                    n - (preceding - (DAYS_IN_MONTH ! nat (m - 1)
                                      + (if m - 1 = 2 \<and> leapyear then 1 else 0))) + 1)
              else (y, m, n - preceding + 1))"

definition toordinal :: "'a date_scheme \<Rightarrow> int" where
  "toordinal d = ymd2ord (year d) (month d) (day d)"

definition weekday :: "'a date_scheme \<Rightarrow> int" where
  "weekday d = (toordinal d + 6) mod 7"

definition date_of :: "datetime \<Rightarrow> date" where
  "date_of dt = \<lparr>year = year dt, month = month dt, day = day dt\<rparr>"

definition combine :: "int \<times> int \<times> int \<Rightarrow> int \<Rightarrow> datetime" where
  "combine ymd secs =
     (case ymd of (y, m, d) \<Rightarrow>
        \<lparr>year = y, month = m, day = d,
         hour = secs div 3600, minute = secs mod 3600 div 60, second = secs mod 60\<rparr>)"

text \<open>
  \<open>datetime.utcfromtimestamp(t)\<close> for an integer \<open>t\<close>: the UTC calendar date and time of
  day of the instant \<open>t\<close> seconds after 1970-01-01 (ordinal 719163). Outside the years 1
  to 9999 Python raises (\<open>ValueError\<close>, or \<open>OverflowError\<close> or \<open>OSError\<close> for a value
  the platform's \<open>gmtime\<close> refuses); the model says \<open>ValueError\<close> for all of them.
\<close>

definition utcfromtimestamp :: "int \<Rightarrow> py_error + datetime" where
  "utcfromtimestamp t =
     (let n = t div 86400 + 719163
      in if 1 \<le> n \<and> n \<le> MAXORDINAL then Inr (combine (ord2ymd n) (t mod 86400))
         else Inl ValueError)"

text \<open>
  \<open>timedelta(seconds=s)\<close> normalises to days and seconds of the day, and raises
  \<open>OverflowError\<close> beyond 999999999 days.
\<close>

definition timedelta_of_seconds :: "int \<Rightarrow> py_error + timedelta" where
  "timedelta_of_seconds s =
     (let d = s div 86400
      in if - 999999999 \<le> d \<and> d \<le> 999999999
         then Inr \<lparr>days = d, seconds = s mod 86400\<rparr>
         else Inl OverflowError)"

text \<open>
  \<open>datetime + timedelta\<close>: the sum is formed on the ordinal and the seconds of the day,
  and a result outside the years 1 to 9999 raises \<open>OverflowError\<close>.
\<close>

definition datetime_add :: "datetime \<Rightarrow> timedelta \<Rightarrow> py_error + datetime" where
  "datetime_add dt td =
     (let total = hour dt * 3600 + minute dt * 60 + second dt + seconds td;
          n = toordinal dt + days td + total div 86400
      in if 0 < n \<and> n \<le> MAXORDINAL then Inr (combine (ord2ymd n) (total mod 86400))
         else Inl OverflowError)"

definition convert_timestamp_to_local ::
    "int option \<Rightarrow> int option \<Rightarrow> py_error + datetime option" where
  "convert_timestamp_to_local timestamp_utc timezone_offset =
     (case (timestamp_utc, timezone_offset) of
        (Some t, Some z) \<Rightarrow>
          (case utcfromtimestamp t of
             Inl e \<Rightarrow> Inl e
           | Inr dt_utc \<Rightarrow>
               (case timedelta_of_seconds z of
                  Inl e \<Rightarrow> Inl e
                | Inr offset \<Rightarrow>
                    (case datetime_add dt_utc offset of
                       Inl e \<Rightarrow> Inl e
                     | Inr dt_local \<Rightarrow> Inr (Some dt_local))))
      | _ \<Rightarrow> Inr None)"

subsection \<open>Formatting and parsing\<close>

text \<open>
  Decimal digits of a natural number, and \<open>%0kd\<close>: the digits, padded with zeros on the
  left to at least \<open>k\<close> characters.
\<close>

definition digit_char :: "nat \<Rightarrow> char" where
  "digit_char n = ''0123456789'' ! n"

fun decimal :: "nat \<Rightarrow> string" where
  "decimal n = (if n < 10 then [digit_char n] else decimal (n div 10) @ [digit_char (n mod 10)])"

definition zero_pad :: "nat \<Rightarrow> int \<Rightarrow> string" where
  "zero_pad k n = (let s = decimal (nat n) in replicate (k - length s) (CHR ''0'') @ s)"

definition is_digit :: "char \<Rightarrow> bool" where
  "is_digit c = (c \<in> set ''0123456789'')"

definition digit_val :: "char \<Rightarrow> nat" where
  "digit_val c = of_char c - 48"

definition parse_decimal :: "string \<Rightarrow> int" where
  "parse_decimal s = int (foldl (\<lambda>a c. 10 * a + digit_val c) 0 s)"

definition DAY_NAMES :: "string list" where
  "DAY_NAMES = [''Monday'', ''Tuesday'', ''Wednesday'', ''Thursday'', ''Friday'',
                ''Saturday'', ''Sunday'']"

definition MONTH_ABBR :: "string list" where
  "MONTH_ABBR = ['''', ''Jan'', ''Feb'', ''Mar'', ''Apr'', ''May'', ''Jun'',
                 ''Jul'', ''Aug'', ''Sep'', ''Oct'', ''Nov'', ''Dec'']"

text \<open>\<open>strftime\<close> with the formats the program uses, in the default C locale.\<close>

definition strftime_HM :: "datetime \<Rightarrow> string" where
  "strftime_HM dt = zero_pad 2 (hour dt) @ '':'' @ zero_pad 2 (minute dt)"

definition strftime_HMS :: "datetime \<Rightarrow> string" where
  "strftime_HMS dt =
     zero_pad 2 (hour dt) @ '':'' @ zero_pad 2 (minute dt) @ '':'' @ zero_pad 2 (second dt)"

definition strftime_A :: "'a date_scheme \<Rightarrow> string" where
  "strftime_A d = DAY_NAMES ! nat (weekday d)"

definition strftime_b_d :: "'a date_scheme \<Rightarrow> string" where
  "strftime_b_d d = MONTH_ABBR ! nat (month d) @ '' '' @ zero_pad 2 (day d)"

text \<open>\<open>str(date)\<close> is the ISO form \<open>YYYY-MM-DD\<close>.\<close>

definition str_date :: "date \<Rightarrow> string" where
  "str_date d = zero_pad 4 (year d) @ ''-'' @ zero_pad 2 (month d) @ ''-'' @ zero_pad 2 (day d)"

text \<open>
  \<open>datetime.strptime(s, '%Y-%m-%d')\<close>, for the zero-padded form that \<open>str(date)\<close> writes:
  ten characters, digits around two hyphens, naming a day that exists. Anything else
  is answered with \<open>ValueError\<close> (Python's parser also accepts a month or a day written with
  one digit, which \<open>str(date)\<close> never writes).
\<close>

definition strptime_Ymd :: "string \<Rightarrow> py_error + datetime" where
  "strptime_Ymd s =
     (if length s = 10 \<and> s ! 4 = CHR ''-'' \<and> s ! 7 = CHR ''-''
         \<and> list_all is_digit (take 4 s @ take 2 (drop 5 s) @ drop 8 s)
      then
        let y = parse_decimal (take 4 s);
            m = parse_decimal (take 2 (drop 5 s));
            d = parse_decimal (drop 8 s)
        in if 1 \<le> y \<and> 1 \<le> m \<and> m \<le> 12 \<and> 1 \<le> d \<and> d \<le> days_in_month y m
           then Inr \<lparr>year = y, month = m, day = d, hour = 0, minute = 0, second = 0\<rparr>
           else Inl ValueError
      else Inl ValueError)"

section \<open>The user interface and the API payloads\<close>

text \<open>
  Streamlit calls are recorded as events, in the order the program makes them. The text
  of an event is a list of segments: literal text, a number under a format
  specification \<open>.kf\<close>, the plain \<open>str\<close> of a number, or the text of a caught
  \<open>requests\<close> exception (the status code for an \<open>HTTPError\<close>, nothing for any other
  \<open>RequestException\<close>). Characters outside ASCII (emoji, the degree sign) are left out
  of the literals.
\<close>

datatype segment =
    Lit string
  | Fixed nat pynum
  | Shown pynum
  | ExcText "nat option"

datatype ui_event =
    Error_box "segment list"
  | Warning_box "segment list"
  | Info_box "segment list"
  | Markdown "segment list"
  | Metric string "segment list"
  | Header "segment list"
  | Divider
  | Columns nat
  | Tabs "string list"
  | Card "segment list"

text \<open>
  A display routine makes its calls one after the other; a call whose argument raises
  ends the routine, and the events made before it stay on the page. \<open>run_steps\<close> gives
  the events made and the exception that ended the routine, if any.
\<close>

fun run_steps :: "(py_error + ui_event) list \<Rightarrow> ui_event list \<times> py_error option" where
  "run_steps [] = ([], None)"
| "run_steps (Inl e # rest) = ([], Some e)"
| "run_steps (Inr ev # rest) = (case run_steps rest of (evs, r) \<Rightarrow> (ev # evs, r))"

text \<open>
  An f-string is evaluated left to right; \<open>fstring\<close> collects the segments up to the first
  part that raises. \<open>{x:.kf}\<close> raises \<open>TypeError\<close> for \<open>None\<close>; a plain \<open>{x}\<close> writes
  \<open>None\<close> as the text \<open>None\<close>.
\<close>

fun fstring :: "(py_error + segment) list \<Rightarrow> py_error + segment list" where
  "fstring [] = Inr []"
| "fstring (Inl e # rest) = Inl e"
| "fstring (Inr s # rest) = (case fstring rest of Inl e \<Rightarrow> Inl e | Inr ss \<Rightarrow> Inr (s # ss))"

definition format_f :: "nat \<Rightarrow> pynum option \<Rightarrow> py_error + segment" where
  "format_f k v = (case v of None \<Rightarrow> Inl TypeError | Some x \<Rightarrow> Inr (Fixed k x))"

definition str_num :: "pynum option \<Rightarrow> segment" where
  "str_num v = (case v of None \<Rightarrow> Lit ''None'' | Some x \<Rightarrow> Shown x)"

text \<open>
  Division of a number by a positive constant, and the sum of two numbers, with the
  values that are not finite treated as floats treat them.
\<close>

definition num_div :: "pynum \<Rightarrow> rat \<Rightarrow> pynum" where
  "num_div x k = (case x of Num a \<Rightarrow> Num (a / k) | other \<Rightarrow> other)"

definition num_add :: "pynum \<Rightarrow> pynum \<Rightarrow> pynum" where
  "num_add x y =
     (case (x, y) of
        (Num a, Num b) \<Rightarrow> Num (a + b)
      | (NaN, _) \<Rightarrow> NaN
      | (_, NaN) \<Rightarrow> NaN
      | (PosInf, NegInf) \<Rightarrow> NaN
      | (NegInf, PosInf) \<Rightarrow> NaN
      | (Num a, other) \<Rightarrow> other
      | (other, _) \<Rightarrow> other)"

text \<open>\<open>str.upper\<close>, \<open>str.capitalize\<close> on ASCII text.\<close>

definition upper_char :: "char \<Rightarrow> char" where
  "upper_char c =
     (if (97::nat) \<le> of_char c \<and> of_char c \<le> (122::nat) then char_of (of_char c - (32::nat)) else c)"

definition lower_char :: "char \<Rightarrow> char" where
  "lower_char c =
     (if (65::nat) \<le> of_char c \<and> of_char c \<le> (90::nat) then char_of (of_char c + (32::nat)) else c)"

definition upper :: "string \<Rightarrow> string" where
  "upper s = map upper_char s"

definition capitalize :: "string \<Rightarrow> string" where
  "capitalize s = (case s of [] \<Rightarrow> [] | c # cs \<Rightarrow> upper_char c # map lower_char cs)"

text \<open>
  The payloads of the weather API, as the program reads them. A JSON object is a record
  whose fields are optional: \<open>None\<close> is an absent key. \<open>other_keys\<close> lists the keys the
  program does not read; they count for the truth value of the object. The fields
  \<open>category\<close> and \<open>description\<close> are the keys \<open>main\<close> and \<open>description\<close> of an element of
  \<open>weather\<close>; \<open>cloud_all\<close> is the key \<open>all\<close> of \<open>clouds\<close>; \<open>one_hour\<close> is the key
  \<open>1h\<close> of \<open>rain\<close> and of \<open>snow\<close>.
\<close>

record weather_info =
  category :: "string option"
  description :: "string option"

record main_info =
  temp :: "pynum option"
  feels_like :: "pynum option"
  temp_min :: "pynum option"
  temp_max :: "pynum option"
  pressure :: "pynum option"
  humidity :: "pynum option"

record wind_info =
  speed :: "pynum option"
  deg :: "pynum option"
  gust :: "pynum option"

record sys_info =
  country :: "string option"
  sunrise :: "int option"
  sunset :: "int option"

record json_object =
  other_keys :: "string list"

record conditions = json_object +
  weather :: "weather_info list option"
  main :: "main_info option"
  wind :: "wind_info option"

record current_payload = conditions +
  name :: "string option"
  sys :: "sys_info option"
  timezone :: "int option"
  visibility :: "pynum option"
  cloud_all :: "pynum option option"
  rain_one_hour :: "pynum option option"
  snow_one_hour :: "pynum option option"

record forecast_item = conditions +
  dt :: "int option"

record forecast_payload = json_object +
  entries :: "forecast_item list option"

text \<open>
  For \<open>clouds\<close>, \<open>rain\<close> and \<open>snow\<close> the outer option is the object and the inner one
  its single key. \<open>get2 f obj\<close> is \<open>data.get(k, {}).get(k')\<close>; \<open>first_weather\<close> is
  \<open>data.get('weather', [{}])[0]\<close>, which raises \<open>IndexError\<close> on an empty list.
\<close>

definition get2 :: "('a \<Rightarrow> 'b option) \<Rightarrow> 'a option \<Rightarrow> 'b option" where
  "get2 f obj = (case obj of None \<Rightarrow> None | Some x \<Rightarrow> f x)"

definition get_default :: "'a \<Rightarrow> 'a option \<Rightarrow> 'a" where
  "get_default d v = (case v of None \<Rightarrow> d | Some x \<Rightarrow> x)"

definition first_weather :: "'a conditions_scheme \<Rightarrow> py_error + weather_info" where
  "first_weather data =
     (case weather data of
        None \<Rightarrow> Inr \<lparr>category = None, description = None\<rparr>
      | Some ws \<Rightarrow> py_index ws 0)"

definition WEATHER_EMOJIS :: "(string \<times> string) list" where
  "WEATHER_EMOJIS =
     [(''Clear'', '' Clear Sky''), (''Clouds'', '' Cloudy''), (''Rain'', '' Rain''),
      (''Drizzle'', '' Drizzle''), (''Thunderstorm'', '' Thunderstorm''), (''Snow'', '' Snow''),
      (''Mist'', '' Mist/Fog''), (''Smoke'', '' Smoke''), (''Haze'', '' Haze''),
      (''Dust'', '' Dust''), (''Fog'', '' Mist/Fog''), (''Sand'', '' Sand/Dust''),
      (''Ash'', '' Ash''), (''Squall'', '' Squalls''), (''Tornado'', '' Tornado'')]"

definition unit_symbol :: string where
  "unit_symbol = ''C''"

section \<open>Current conditions\<close>

definition display_weather :: "current_payload \<Rightarrow> ui_event list \<times> py_error option" where
  "display_weather data =
     (let city_name = get_default ''N/A'' (name data);
          country_code = get_default ''N/A'' (get2 country (sys data));
          timezone_offset = get_default 0 (timezone data)
      in case first_weather data of
           Inl e \<Rightarrow> ([], Some e)
         | Inr w \<Rightarrow>
        let main_weather = get_default ''N/A'' (category w);
            description = capitalize (get_default ''N/A'' (description w));
            temp = get2 temp (main data);
            feels_like = get2 feels_like (main data);
            temp_min = get2 temp_min (main data);
            temp_max = get2 temp_max (main data);
            pressure = get2 pressure (main data);
            humidity = get2 humidity (main data);
            visibility = visibility data;
            wind_speed = get2 speed (wind data);
            wind_deg = get2 deg (wind data);
            wind_gust = get2 gust (wind data);
            cloudiness = get2 id (cloud_all data);
            rain_1h = get_default (Num 0) (get2 id (rain_one_hour data));
            snow_1h = get_default (Num 0) (get2 id (snow_one_hour data));
            sunrise_utc = get2 sunrise (sys data);
            sunset_utc = get2 sunset (sys data);
            weather_emoji = get_default ''?'' (map_of WEATHER_EMOJIS main_weather);
            full_condition = weather_emoji @ '' ('' @ description @ '')''
        in case get_wind_direction wind_deg of
             Inl e \<Rightarrow> ([], Some e)
           | Inr wind_dir \<Rightarrow>
          let visibility_km =
                (case visibility of
                   None \<Rightarrow> [Lit ''N/A'']
                 | Some v \<Rightarrow> [Fixed 1 (num_div v 1000), Lit '' km''])
          in case convert_timestamp_to_local sunrise_utc (Some timezone_offset) of
               Inl e \<Rightarrow> ([], Some e)
             | Inr sunrise_local \<Rightarrow>
            case convert_timestamp_to_local sunset_utc (Some timezone_offset) of
               Inl e \<Rightarrow> ([], Some e)
             | Inr sunset_local \<Rightarrow>
              run_steps
                [Inr (Markdown [Lit ''## Current Weather in '', Lit city_name, Lit '', '',
                                Lit (upper country_code)]),
                 Inr (Columns 2),
                 Inr (Markdown [Lit ''### '', Lit full_condition]),
                 map_sum id Markdown
                   (fstring [Inr (Lit ''**Temperature:** **''), format_f 1 temp, Inr (Lit '' ''),
                             Inr (Lit unit_symbol), Inr (Lit ''**'')]),
                 map_sum id Markdown
                   (fstring [Inr (Lit ''**Feels Like:** ''), format_f 1 feels_like, Inr (Lit '' ''),
                             Inr (Lit unit_symbol)]),
                 Inr (Markdown [Lit ''### Sun Times'']),
                 Inr (Metric ''Sunrise''
                        (case sunrise_local of
                           None \<Rightarrow> [Lit ''N/A''] | Some t \<Rightarrow> [Lit (strftime_HMS t)])),
                 Inr (Metric ''Sunset''
                        (case sunset_local of
                           None \<Rightarrow> [Lit ''N/A''] | Some t \<Rightarrow> [Lit (strftime_HMS t)])),
                 Inr Divider,
                 Inr (Markdown [Lit ''### Temperature and Wind'']),
                 Inr (Columns 3),
                 map_sum id (Metric ''Min/Max Temp (Day)'')
                   (fstring [format_f 1 temp_min, Inr (Lit '' / ''), format_f 1 temp_max,
                             Inr (Lit '' ''), Inr (Lit unit_symbol)]),
                 Inr (Metric ''Wind Speed'' [str_num wind_speed, Lit '' m/s'']),
                 Inr (Metric ''Wind Direction''
                        (case wind_deg of
                           None \<Rightarrow> [Lit ''N/A'']
                         | Some v \<Rightarrow> [Lit wind_dir, Lit '' ('', Shown v, Lit '')''])),
                 Inr Divider,
                 Inr (Markdown [Lit ''### Atmospheric Conditions (Extended)'']),
                 Inr (Columns 3),
                 Inr (Metric ''Pressure'' [str_num pressure, Lit '' hPa'']),
                 Inr (Metric ''Humidity'' [str_num humidity, Lit '' %'']),
                 Inr (Metric ''Visibility'' visibility_km),
                 Inr (Columns 3),
                 Inr (Metric ''Cloudiness''
                        (case cloudiness of
                           None \<Rightarrow> [Lit ''N/A''] | Some v \<Rightarrow> [Shown v, Lit '' %''])),
                 Inr (Metric ''Wind Gust''
                        (case wind_gust of
                           None \<Rightarrow> [Lit ''N/A''] | Some v \<Rightarrow> [Shown v, Lit '' m/s''])),
                 Inr (Metric ''Precipitation (1hr)''
                        [Fixed 2 (num_add rain_1h snow_1h), Lit '' mm''])])"

section \<open>The forecast\<close>

text \<open>
  A row of the forecast table (a dictionary of \<open>forecast_rows\<close>, then a row of the pandas
  \<open>DataFrame\<close>). A number missing from the entry is stored as NaN.
\<close>

record forecast_row =
  Time :: string
  MainCondition :: string
  ConditionEmoji :: string
  ConditionDescription :: string
  Temp :: pynum
  FeelsLike :: pynum
  Humidity :: pynum
  WindSpeed :: pynum
  WindDeg :: pynum
  FilterDate :: date

definition make_row :: "forecast_item \<Rightarrow> datetime \<Rightarrow> py_error + forecast_row" where
  "make_row item dt_local =
     (case first_weather item of
        Inl e \<Rightarrow> Inl e
      | Inr w \<Rightarrow>
          let main_weather_group = get_default ''N/A'' (category w)
          in Inr \<lparr>Time = strftime_HM dt_local,
                  MainCondition = main_weather_group,
                  ConditionEmoji = get_default ''?'' (map_of WEATHER_EMOJIS main_weather_group),
                  ConditionDescription = capitalize (get_default ''N/A'' (description w)),
                  Temp = get_default NaN (get2 temp (main item)),
                  FeelsLike = get_default NaN (get2 feels_like (main item)),
                  Humidity = get_default NaN (get2 humidity (main item)),
                  WindSpeed = get_default NaN (get2 speed (wind item)),
                  WindDeg = get_default NaN (get2 deg (wind item)),
                  FilterDate = date_of dt_local\<rparr>)"

text \<open>
  The loop over \<open>forecast_list\<close>: an entry for which \<open>convert_timestamp_to_local\<close>
  returns \<open>None\<close> is skipped (\<open>continue\<close>); an exception ends the loop and the routine.
\<close>

fun build_rows :: "forecast_item list \<Rightarrow> int option \<Rightarrow> py_error + forecast_row list" where
  "build_rows [] timezone_offset = Inr []"
| "build_rows (item # rest) timezone_offset =
     (case convert_timestamp_to_local (dt item) timezone_offset of
        Inl e \<Rightarrow> Inl e
      | Inr None \<Rightarrow> build_rows rest timezone_offset
      | Inr (Some dt_local) \<Rightarrow>
          (case make_row item dt_local of
             Inl e \<Rightarrow> Inl e
           | Inr row \<Rightarrow>
               (case build_rows rest timezone_offset of
                  Inl e \<Rightarrow> Inl e
                | Inr rows \<Rightarrow> Inr (row # rows))))"

text \<open>
  \<open>pd.DataFrame(forecast_rows)\<close> takes its columns from the rows: with no row there is
  no column, and \<open>df_forecast['FilterDate']\<close> raises \<open>KeyError\<close>. \<open>Series.unique()\<close>
  returns the distinct values in the order of their first appearance.
\<close>

definition column_FilterDate :: "forecast_row list \<Rightarrow> py_error + date list" where
  "column_FilterDate df_forecast =
     (if df_forecast = [] then Inl KeyError else Inr (map FilterDate df_forecast))"

fun unique_seen :: "'a list \<Rightarrow> 'a list \<Rightarrow> 'a list" where
  "unique_seen seen [] = []"
| "unique_seen seen (x # xs) =
     (if x \<in> set seen then unique_seen seen xs else x # unique_seen (x # seen) xs)"

definition unique :: "'a list \<Rightarrow> 'a list" where
  "unique xs = unique_seen [] xs"

text \<open>
  The tab titles: \<open>enumerate(unique_dates)\<close>, with \<open>i\<close> counted from the given start.
\<close>

definition tab_title :: "nat \<Rightarrow> date \<Rightarrow> py_error + string" where
  "tab_title i d =
     (case (if i = 0 then Inr ''Today''
            else if i = 1 then Inr ''Tomorrow''
            else map_sum id strftime_A (strptime_Ymd (str_date d))) of
        Inl e \<Rightarrow> Inl e
      | Inr title \<Rightarrow> Inr (title @ '' ('' @ strftime_b_d d @ '')''))"

fun tab_titles_from :: "nat \<Rightarrow> date list \<Rightarrow> py_error + string list" where
  "tab_titles_from i [] = Inr []"
| "tab_titles_from i (d # ds) =
     (case tab_title i d of
        Inl e \<Rightarrow> Inl e
      | Inr t \<Rightarrow>
          (case tab_titles_from (Suc i) ds of
             Inl e \<Rightarrow> Inl e
           | Inr ts \<Rightarrow> Inr (t # ts)))"

definition tab_titles :: "date list \<Rightarrow> py_error + string list" where
  "tab_titles unique_dates = tab_titles_from 0 unique_dates"

text \<open>
  \<open>df_forecast[df_forecast['FilterDate'] == date]\<close> keeps the rows of that date, in the
  table's order. \<open>day_groups\<close> is the list of the tables \<open>df_day\<close> that the second loop
  of \<open>display_forecast\<close> works on, one per unique date.
\<close>

definition df_day :: "forecast_row list \<Rightarrow> date \<Rightarrow> forecast_row list" where
  "df_day df_forecast d = filter (\<lambda>r. FilterDate r = d) df_forecast"


definition BASE_CARD_CSS :: string where
  "BASE_CARD_CSS = ''padding: 15px; border-radius: 10px; box-shadow: 0 4px 8px rgba(0, 0, 0, 0.2); background-size: cover; background-position: center;''"

definition CARD_STYLES :: "(string \<times> string) list" where
  "CARD_STYLES =
     [(''Clear'', BASE_CARD_CSS @ '' background-image: linear-gradient(to top right, #ADD8E6, #FFFACD); border-left: 5px solid #FFD700; color: #333333;''),
      (''Clouds'', BASE_CARD_CSS @ '' background-color: #F0F8FF; border-left: 5px solid #A9A9A9; color: #333333;''),
      (''Drizzle'', BASE_CARD_CSS @ '' background-color: #E0EFFF; border-left: 5px solid #6495ED; color: #333333;''),
      (''Snow'', BASE_CARD_CSS @ '' background-color: #FFFFFF; border-left: 5px solid #ADD8E6; color: #333333;''),
      (''Mist'', BASE_CARD_CSS @ '' background-color: #E0EEE0; border-left: 5px solid #808080; color: #333333;''),
      (''Haze'', BASE_CARD_CSS @ '' background-color: #FAEBD7; border-left: 5px solid #9932CC; color: #333333;''),
      (''Rain'', BASE_CARD_CSS @ '' background-image: url(images/rain_bg.jpg); background-color: #4169E1; border-left: 5px solid #4169E1; color: #FFFFFF;''),
      (''Thunderstorm'', BASE_CARD_CSS @ '' background-color: #333333; border-left: 5px solid #800080; color: #FFFFFF;''),
      (''Default'', BASE_CARD_CSS @ '' background-color: #F5F5F5; border-left: 5px solid #696969; color: #333333;'')]"

text \<open>
  One card: the row is read with \<open>iloc\<close>, the style is looked up with the default style
  as fallback, the wind direction is computed, and the card is written, followed by an
  empty markdown call. The card's HTML template is fixed text; the event keeps the values
  put into it, in the template's order. (The quotation marks around the image path of the
  \<open>Rain\<close> style are left out.)
\<close>

definition card_steps :: "py_error + forecast_row \<Rightarrow> (py_error + ui_event) list" where
  "card_steps read =
     (case read of
        Inl e \<Rightarrow> [Inl e]
      | Inr hour_data \<Rightarrow>
          let style = get_default (get_default [] (map_of CARD_STYLES ''Default''))
                        (map_of CARD_STYLES (MainCondition hour_data))
          in case get_wind_direction (Some (WindDeg hour_data)) of
               Inl e \<Rightarrow> [Inl e]
             | Inr wind_dir \<Rightarrow>
                 [Inr (Card [Lit style, Lit (Time hour_data), Lit (ConditionEmoji hour_data),
                             Lit (ConditionDescription hour_data), Fixed 1 (Temp hour_data),
                             Fixed 1 (FeelsLike hour_data), Fixed 0 (Humidity hour_data),
                             Fixed 1 (WindSpeed hour_data), Lit wind_dir]),
                  Inr (Markdown [Lit []])])"

definition day_steps :: "forecast_row list \<Rightarrow> string \<times> date \<Rightarrow> (py_error + ui_event) list" where
  "day_steps df_forecast td =
     (case td of (title, d) \<Rightarrow>
        Inr (Markdown [Lit ''### Hourly Forecast for '', Lit title])
        # concat (map (\<lambda>row. Inr (Columns cols_per_row) # concat (map card_steps row))
                      (card_rows (df_day df_forecast d))))"

definition display_forecast ::
    "forecast_payload \<Rightarrow> int option \<Rightarrow> ui_event list \<times> py_error option" where
  "display_forecast data timezone_offset =
     (let forecast_list = get_default [] (entries data)
      in if forecast_list = []
         then ([Warning_box [Lit ''No forecast data available for this location.'']], None)
         else
           case build_rows forecast_list timezone_offset of
             Inl e \<Rightarrow> ([], Some e)
           | Inr df_forecast \<Rightarrow>
               (case column_FilterDate df_forecast of
                  Inl e \<Rightarrow> ([], Some e)
                | Inr col \<Rightarrow>
                    let unique_dates = unique col
                    in case tab_titles unique_dates of
                         Inl e \<Rightarrow> ([], Some e)
                       | Inr titles \<Rightarrow>
                           run_steps
                             (Inr (Tabs titles)
                              # concat (map (day_steps df_forecast) (zip titles unique_dates)))))"

section \<open>Fetching from the API\<close>

text \<open>
  The world of the fetch routines is the page and the list of HTTP requests sent. The
  API is a function from a request to what \<open>requests.get\<close> does with it: a response
  with a status code and a JSON body, or a \<open>RequestException\<close> (no connection, timeout).
  \<open>raise_for_status\<close> raises \<open>HTTPError\<close> for the codes 400 to 599.
\<close>

record request =
  url :: string
  params :: "(string \<times> string) list"

datatype 'a response = Response nat 'a | NoResponse

record world =
  ui :: "ui_event list"
  requests :: "request list"

definition say :: "ui_event list \<Rightarrow> world \<Rightarrow> world" where
  "say evs w = w\<lparr>ui := ui w @ evs\<rparr>"

definition send :: "request \<Rightarrow> world \<Rightarrow> world" where
  "send r w = w\<lparr>requests := requests w @ [r]\<rparr>"

definition PLACEHOLDER :: string where
  "PLACEHOLDER = ''PLACEHOLDER_FOR_SECRETS_NOT_LOADED''"

definition OWM_API_KEY :: "(string \<rightharpoonup> string) \<Rightarrow> string" where
  "OWM_API_KEY secrets =
     (case secrets ''openweathermap_api_key'' of None \<Rightarrow> PLACEHOLDER | Some k \<Rightarrow> k)"

definition CURRENT_WEATHER_URL :: string where
  "CURRENT_WEATHER_URL = ''http://api.openweathermap.org/data/2.5/weather''"

definition FORECAST_URL :: string where
  "FORECAST_URL = ''http://api.openweathermap.org/data/2.5/forecast''"

definition UNITS :: string where
  "UNITS = ''metric''"

definition handle_api_error :: "string \<Rightarrow> world \<Rightarrow> bool \<times> world" where
  "handle_api_error api_key w =
     (if api_key = PLACEHOLDER
      then (True,
            say [Error_box [Lit '' **Error: OpenWeatherMap API key not found.**''],
                 Error_box [Lit ''Please create a `.streamlit/secrets.toml` file and add the `openweathermap_api_key`.'']]
                w)
      else (False, w))"

definition query_of :: "string \<Rightarrow> string \<Rightarrow> string \<Rightarrow> (string \<times> string) list" where
  "query_of api_key city_name country_code =
     [(''q'', city_name @ '','' @ country_code), (''appid'', api_key), (''units'', UNITS)]"

definition get_current_weather_data ::
    "string \<Rightarrow> (request \<Rightarrow> 'a response) \<Rightarrow> string \<Rightarrow> string \<Rightarrow> world \<Rightarrow> 'a option \<times> world" where
  "get_current_weather_data api_key api city_name country_code w =
     (case handle_api_error api_key w of
        (True, w1) \<Rightarrow> (None, w1)
      | (False, w1) \<Rightarrow>
          let req = \<lparr>url = CURRENT_WEATHER_URL, params = query_of api_key city_name country_code\<rparr>;
              w2 = send req w1
          in case api req of
               NoResponse \<Rightarrow>
                 (None, say [Error_box [Lit ''Error connecting to OWM API for current weather: '',
                                        ExcText None]] w2)
             | Response status body \<Rightarrow>
                 if 400 \<le> status \<and> status < 600
                 then if status = 404
                      then (None, say [Error_box [Lit ''City '', Lit [CHR 0x27], Lit city_name,
                              Lit [CHR 0x27],
                              Lit '' not found for current weather. Please select another city.'']] w2)
                      else (None, say [Error_box [Lit ''HTTP Error fetching current weather: '',
                                                  ExcText (Some status)]] w2)
                 else (Some body, w2))"

definition get_forecast_data ::
    "string \<Rightarrow> (request \<Rightarrow> 'a response) \<Rightarrow> string \<Rightarrow> string \<Rightarrow> world \<Rightarrow> 'a option \<times> world" where
  "get_forecast_data api_key api city_name country_code w =
     (case handle_api_error api_key w of
        (True, w1) \<Rightarrow> (None, w1)
      | (False, w1) \<Rightarrow>
          let req = \<lparr>url = FORECAST_URL, params = query_of api_key city_name country_code\<rparr>;
              w2 = send req w1
          in case api req of
               NoResponse \<Rightarrow>
                 (None, say [Error_box [Lit ''Error connecting to OWM API for forecast: '',
                                        ExcText None]] w2)
             | Response status body \<Rightarrow>
                 if 400 \<le> status \<and> status < 600
                 then if status = 404
                      then (None, say [Warning_box
                              [Lit ''Forecast data not available for this specific city.'']] w2)
                      else (None, say [Error_box [Lit ''HTTP Error fetching forecast: '',
                                                  ExcText (Some status)]] w2)
                 else (Some body, w2))"

section \<open>The main content area\<close>

text \<open>
  The truth value of a payload: a dictionary is true when it has a key. The truth value
  of the selected city: a non-empty string (the select box gives \<open>None\<close> when it has no
  option).
\<close>

definition truthy_current :: "current_payload \<Rightarrow> bool" where
  "truthy_current data =
     (other_keys data \<noteq> [] \<or> weather data \<noteq> None \<or> main data \<noteq> None \<or> wind data \<noteq> None
      \<or> name data \<noteq> None \<or> sys data \<noteq> None \<or> timezone data \<noteq> None \<or> visibility data \<noteq> None
      \<or> cloud_all data \<noteq> None \<or> rain_one_hour data \<noteq> None \<or> snow_one_hour data \<noteq> None)"

definition truthy_forecast :: "forecast_payload \<Rightarrow> bool" where
  "truthy_forecast data = (other_keys data \<noteq> [] \<or> entries data \<noteq> None)"

definition truthy_city :: "string option \<Rightarrow> bool" where
  "truthy_city c = (case c of None \<Rightarrow> False | Some s \<Rightarrow> s \<noteq> [])"

text \<open>
  The part of \<open>main\<close> after the sidebar: what happens for the state of the button and
  the selection. The result is the world afterwards and the exception that left \<open>main\<close>,
  if any.
\<close>

definition main_content ::
    "string \<Rightarrow> (request \<Rightarrow> current_payload response) \<Rightarrow> (request \<Rightarrow> forecast_payload response)
     \<Rightarrow> bool \<Rightarrow> string option \<Rightarrow> string \<Rightarrow> string \<Rightarrow> world \<Rightarrow> world \<times> py_error option" where
  "main_content api_key current_api forecast_api fetch_button selected_city_name
       selected_country_name selected_country_code w =
     (if fetch_button \<and> truthy_city selected_city_name
      then
        let city = get_default [] selected_city_name
        in case get_current_weather_data api_key current_api city selected_country_code w of
             (None, w1) \<Rightarrow> (w1, None)
           | (Some current_weather_data, w1) \<Rightarrow>
               if \<not> truthy_current current_weather_data then (w1, None)
               else
                 (case display_weather current_weather_data of
                    (evs, Some e) \<Rightarrow> (say evs w1, Some e)
                  | (evs, None) \<Rightarrow>
                      let w2 = say (evs @ [Header [Lit ''5-Day Forecast: Hourly Breakdown '']]) w1
                      in case get_forecast_data api_key forecast_api city selected_country_code w2 of
                           (None, w3) \<Rightarrow> (w3, None)
                         | (Some forecast_data, w3) \<Rightarrow>
                             if \<not> truthy_forecast forecast_data then (w3, None)
                             else
                               let timezone_offset = get_default 0 (timezone current_weather_data)
                               in case display_forecast forecast_data (Some timezone_offset) of
                                    (evs2, r) \<Rightarrow> (say evs2 w3, r))
      else if \<not> truthy_city selected_city_name \<and> fetch_button
      then (say [Warning_box [Lit ''Please select a city from the list.'']] w, None)
      else (say [Info_box [Lit '' Select a country and a city from the dropdowns to view the current weather and 5-day forecast!'']] w, None))"

section \<open>Quantities the properties speak of\<close>

text \<open>
  A triple of year, month and day names a day of the calendar when the month is one of
  the twelve and the day exists in that month.
\<close>

definition valid_ymd :: "int \<times> int \<times> int \<Rightarrow> bool" where
  "valid_ymd ymd =
     (case ymd of (y, m, d) \<Rightarrow> 1 \<le> m \<and> m \<le> 12 \<and> 1 \<le> d \<and> d \<le> days_in_month y m)"

text \<open>
  The result of \<open>ord2ymd\<close> as a function of the four quotients and the rest that it
  computes from the ordinal.
\<close>

definition ymd_of_parts :: "int \<Rightarrow> int \<Rightarrow> int \<Rightarrow> int \<Rightarrow> int \<Rightarrow> int \<times> int \<times> int" where
  "ymd_of_parts n400 n100 n4 n1 n =
     (let y = n400 * 400 + 1 + n100 * 100 + n4 * 4 + n1
      in if n1 = 4 \<or> n100 = 4 then (y - 1, 12, 31)
         else
           let leapyear = (n1 = 3 \<and> (n4 \<noteq> 24 \<or> n100 = 3));
               m = (n + 50) div 32;
               preceding = DAYS_BEFORE_MONTH ! nat m + (if 2 < m \<and> leapyear then 1 else 0)
           in if n < preceding
              then (y, m - 1,
                    n - (preceding - (DAYS_IN_MONTH ! nat (m - 1)
                                      + (if m - 1 = 2 \<and> leapyear then 1 else 0))) + 1)
              else (y, m, n - preceding + 1))"

text \<open>
  The instant of a \<open>datetime\<close> read as UTC, in seconds since 1970-01-01 00:00:00, and
  the instants of the years 1 to 9999, which a \<open>datetime\<close> can hold.
\<close>

definition timestamp_of :: "datetime \<Rightarrow> int" where
  "timestamp_of t =
     (toordinal t - 719163) * 86400 + hour t * 3600 + minute t * 60 + second t"

definition in_datetime_range :: "int \<Rightarrow> bool" where
  "in_datetime_range t = (- 62135596800 \<le> t \<and> t \<le> 253402300799)"

text \<open>
  A \<open>date\<close> object holds a day that exists, in the years 1 to 9999. The title a tab is
  expected to carry, from its position and its date: \<open>Today\<close> for the first,
  \<open>Tomorrow\<close> for the second, the name of the date's day of the week for the others
  (ordinal 1 is a Monday), followed by the abbreviated month and the day in parentheses.
\<close>

definition valid_date :: "date \<Rightarrow> bool" where
  "valid_date d = (1 \<le> year d \<and> year d \<le> 9999 \<and> valid_ymd (year d, month d, day d))"

definition expected_title :: "nat \<Rightarrow> date \<Rightarrow> string" where
  "expected_title i d =
     (if i = 0 then ''Today''
      else if i = 1 then ''Tomorrow''
      else DAY_NAMES ! nat ((toordinal d + 6) mod 7))
     @ '' ('' @ MONTH_ABBR ! nat (month d) @ '' '' @ zero_pad 2 (day d) @ '')''"


section \<open>Sample payloads\<close>

text \<open>
  Payloads of the shape the API sends, used where a property is run on a concrete
  input: current conditions for a city, the same without the key \<open>temp\<close>, a forecast
  entry for a given timestamp, and a forecast of nine three-hourly entries from
  2024-11-04 06:00 UTC on.
\<close>

definition sample_weather :: "weather_info list" where
  "sample_weather = [\<lparr>category = Some ''Clear'', description = Some ''clear sky''\<rparr>]"

definition sample_main :: main_info where
  "sample_main =
     \<lparr>temp = Some (Num 20), feels_like = Some (Num 19), temp_min = Some (Num 18),
      temp_max = Some (Num 22), pressure = Some (Num 1012), humidity = Some (Num 40)\<rparr>"

definition sample_wind :: wind_info where
  "sample_wind = \<lparr>speed = Some (Num 3), deg = Some (Num 90), gust = None\<rparr>"

definition sample_current :: current_payload where
  "sample_current =
     \<lparr>other_keys = [''coord'', ''base'', ''dt'', ''id'', ''cod''],
      weather = Some sample_weather, main = Some sample_main, wind = Some sample_wind,
      name = Some ''Pune'',
      sys = Some \<lparr>country = Some ''IN'', sunrise = Some 1730682000, sunset = Some 1730723400\<rparr>,
      timezone = Some 19800, visibility = Some (Num 10000), cloud_all = Some (Some (Num 0)),
      rain_one_hour = None, snow_one_hour = None\<rparr>"

definition no_temp_current :: current_payload where
  "no_temp_current = sample_current\<lparr>main := Some (sample_main\<lparr>temp := None\<rparr>)\<rparr>"

definition sample_entry :: "int option \<Rightarrow> forecast_item" where
  "sample_entry t =
     \<lparr>other_keys = [''clouds'', ''pop'', ''dt_txt''],
      weather = Some sample_weather, main = Some sample_main, wind = Some sample_wind,
      dt = t\<rparr>"

definition no_deg_entry :: forecast_item where
  "no_deg_entry = (sample_entry (Some 1730700000))\<lparr>wind := Some (sample_wind\<lparr>deg := None\<rparr>)\<rparr>"

definition sample_forecast :: forecast_payload where
  "sample_forecast =
     \<lparr>other_keys = [''cod'', ''cnt'', ''city''],
      entries = Some (map (\<lambda>k. sample_entry (Some (1730700000 + 10800 * int k))) [0 ..< 9])\<rparr>"

definition sample_api :: "'a \<Rightarrow> request \<Rightarrow> 'a response" where
  "sample_api body r =
     (if map_of (params r) ''q'' = Some ''Atlantis,IN'' then Response 404 body
      else Response 200 body)"

definition empty_world :: world where
  "empty_world = \<lparr>ui = [], requests = []\<rparr>"

text \<open>
  The rows built from the sample forecast with offset 0 (six entries on the first day,
  three on the second), and a list of entries that is not in chronological order.
\<close>

definition sample_rows :: "forecast_row list" where
  "sample_rows =
     (case build_rows (get_default [] (entries sample_forecast)) (Some 0) of
        Inl e \<Rightarrow> [] | Inr rows \<Rightarrow> rows)"


text \<open>Three consecutive dates, the first a Monday.\<close>

definition sample_dates :: "date list" where
  "sample_dates = [\<lparr>year = 2024, month = 11, day = 4\<rparr>, \<lparr>year = 2024, month = 11, day = 5\<rparr>,
                   \<lparr>year = 2024, month = 11, day = 6\<rparr>]"

section \<open>Properties of the wind direction\<close>

lemma length_directions: "length directions = 16"
  by (simp add: directions_def)

lemma wind_index_formula: "wind_index d = py_round (d / (45 / 2)) mod 16"
  by (simp add: wind_index_def length_directions)

lemma wind_index_range: "0 \<le> wind_index d \<and> wind_index d < 16"
  by (simp add: wind_index_def length_directions)

lemma wind_direction_lookup:
  "get_wind_direction (Some (Num d)) = Inr (directions ! nat (wind_index d))"
  using wind_index_range [of d]
  by (simp add: get_wind_direction_def py_index_def length_directions)

lemma wind_0: "get_wind_direction (Some (Num 0)) = Inr ''N''"
  by code_simp

lemma wind_90: "get_wind_direction (Some (Num 90)) = Inr ''E''"
  by code_simp

lemma wind_180: "get_wind_direction (Some (Num 180)) = Inr ''S''"
  by code_simp

lemma wind_270: "get_wind_direction (Some (Num 270)) = Inr ''W''"
  by code_simp

lemma wind_360: "get_wind_direction (Some (Num 360)) = Inr ''N''"
  by code_simp

lemma wind_22_49: "get_wind_direction (Some (Num (2249 / 100))) = Inr ''NNE''"
  by code_simp

lemma wind_22_5: "get_wind_direction (Some (Num (45 / 2))) = Inr ''NNE''"
  by code_simp

lemma wind_infinite:
  "get_wind_direction (Some PosInf) = Inl OverflowError
   \<and> get_wind_direction (Some NegInf) = Inl OverflowError"
  by (simp add: get_wind_direction_def)

text \<open>
  C4, as stated, fails at 22.49 degrees: 22.49 / 22.5 is about 0.9996, which rounds to 1,
  so the code answers \<open>NNE\<close> and not \<open>N\<close>. (The sector of \<open>N\<close> ends at 11.25 degrees.)
\<close>

theorem wind_22_49_is_not_N: "get_wind_direction (Some (Num (2249 / 100))) \<noteq> Inr ''N''"
  by code_simp

text \<open>
  C4, amended: the conversion looks up index \<open>round(degrees / 22.5) mod 16\<close> in the
  16-point compass list, and yields \<open>N\<close> at 0, \<open>E\<close> at 90, \<open>S\<close> at 180, \<open>W\<close> at 270,
  \<open>N\<close> at 360, and \<open>NNE\<close> at both 22.49 and 22.5 degrees.
\<close>

theorem wind_direction_boundaries:
  "get_wind_direction (Some (Num d)) = Inr (directions ! nat (py_round (d / (45 / 2)) mod 16))
   \<and> get_wind_direction (Some (Num 0)) = Inr ''N''
   \<and> get_wind_direction (Some (Num 90)) = Inr ''E''
   \<and> get_wind_direction (Some (Num 180)) = Inr ''S''
   \<and> get_wind_direction (Some (Num 270)) = Inr ''W''
   \<and> get_wind_direction (Some (Num 360)) = Inr ''N''
   \<and> get_wind_direction (Some (Num (2249 / 100))) = Inr ''NNE''
   \<and> get_wind_direction (Some (Num (45 / 2))) = Inr ''NNE''"
  using wind_direction_lookup [of d] wind_index_formula [of d]
    wind_0 wind_90 wind_180 wind_270 wind_360 wind_22_49 wind_22_5
  by simp

text \<open>
  C10, as stated, fails: the conversion is not total. For the float NaN, which is not
  \<open>None\<close>, \<open>round\<close> raises \<open>ValueError\<close> and no compass string is returned; the program
  itself passes NaN, from a forecast entry without a wind degree.
\<close>

theorem wind_direction_nan_raises: "get_wind_direction (Some NaN) = Inl ValueError"
  by (simp add: get_wind_direction_def)

lemma forecast_without_degree_raises:
  "snd (display_forecast \<lparr>other_keys = [''cod''], entries = Some [no_deg_entry]\<rparr> (Some 0))
     = Some ValueError"
  by code_simp

text \<open>
  C10, amended: for \<open>None\<close> the conversion returns the marker \<open>N/A\<close>; for every finite
  number of degrees that a float can hold (magnitude below \<open>2 ^ 1023\<close>), negative or
  above 360 included, the index lies in 0..15 and the conversion returns one of the 16
  compass strings, with no exception.
\<close>

theorem wind_direction_defined:
  "get_wind_direction None = Inr ''N/A''
   \<and> (\<bar>d\<bar> < 2 ^ 1023
        \<longrightarrow> 0 \<le> wind_index d \<and> wind_index d \<le> 15
            \<and> get_wind_direction (Some (Num d)) \<in> Inr ` set directions)"
proof -
  have "nat (wind_index d) < length directions"
    using wind_index_range [of d] by (auto simp add: length_directions)
  then have "directions ! nat (wind_index d) \<in> set directions"
    by (rule nth_mem)
  then show ?thesis
    using wind_index_range [of d] wind_direction_lookup [of d]
    by (simp add: get_wind_direction_def)
qed

lemma small_magnitudes: "\<bar>- 10 :: rat\<bar> < 2 ^ 1023" "\<bar>370 :: rat\<bar> < 2 ^ 1023"
proof -
  have "(2::rat) ^ 9 \<le> 2 ^ 1023" by (rule power_increasing) simp_all
  then show "\<bar>- 10 :: rat\<bar> < 2 ^ 1023" "\<bar>370 :: rat\<bar> < 2 ^ 1023" by simp_all
qed

theorem wind_direction_defined_witness:
  "\<bar>- 10 :: rat\<bar> < 2 ^ 1023 \<and> \<bar>370 :: rat\<bar> < 2 ^ 1023
   \<and> get_wind_direction (Some (Num (- 10))) \<in> Inr ` set directions
   \<and> get_wind_direction (Some (Num 370)) \<in> Inr ` set directions"
  using wind_direction_defined [of "- 10"] wind_direction_defined [of 370] small_magnitudes
  by blast

section \<open>Properties of the card rows\<close>

lemma concat_full_rows:
  "k * 4 \<le> n \<Longrightarrow>
   concat (map (\<lambda>r. [r * 4 ..< min (r * 4 + 4) n]) [0 ..< k]) = [0 ..< k * 4]"
proof (induction k)
  case 0
  then show ?case by simp
next
  case (Suc k)
  then have "min (k * 4 + 4) n = k * 4 + 4" by simp
  moreover have "[0 ..< k * 4] @ [k * 4 ..< k * 4 + 4] = [0 ..< Suc k * 4]"
    by (metis add.commute le_add2 mult_Suc upt_add_eq_append add.left_neutral)
  ultimately show ?case using Suc by simp
qed

lemma concat_index_rows:
  "concat (map (\<lambda>r. [r * 4 ..< min (r * 4 + 4) n]) [0 ..< (n + 3) div 4]) = [0 ..< n]"
proof (cases "n mod 4 = 0")
  case True
  then have "(n + 3) div 4 * 4 = n" by presburger
  then show ?thesis using concat_full_rows [of "(n + 3) div 4" n] by simp
next
  case False
  define k where "k = n div 4"
  have k: "(n + 3) div 4 = Suc k" "k * 4 \<le> n" "n < k * 4 + 4"
    using False unfolding k_def by presburger+
  have "concat (map (\<lambda>r. [r * 4 ..< min (r * 4 + 4) n]) [0 ..< Suc k])
        = [0 ..< k * 4] @ [k * 4 ..< n]"
    using concat_full_rows [OF k(2)] k(3) by simp
  also have "\<dots> = [0 ..< n]"
    using k(2) by (metis le_Suc_ex upt_add_eq_append zero_le)
  finally show ?thesis by (simp add: k(1))
qed

lemma map_iloc: "map (iloc xs) [0 ..< length xs] = map Inr xs"
  by (rule nth_equalityI) (simp_all add: iloc_def)

lemma concat_card_rows: "concat (card_rows xs) = map Inr xs"
proof -
  have "concat (card_rows xs) =
        map (iloc xs) (concat (map (\<lambda>r. [r * 4 ..< min (r * 4 + 4) (length xs)])
                                   [0 ..< (length xs + 3) div 4]))"
    by (simp add: card_rows_def cols_per_row_def Let_def map_concat comp_def add.commute)
  then show ?thesis by (simp add: concat_index_rows map_iloc)
qed

lemma length_card_rows: "length (card_rows xs) = (length xs + 3) div 4"
  by (simp add: card_rows_def cols_per_row_def Let_def)

lemma ceiling_quarter: "\<lceil>real n / 4\<rceil> = int ((n + 3) div 4)"
proof (rule ceiling_unique)
  have a: "4 * ((n + 3) div 4) < n + 4" "n \<le> 4 * ((n + 3) div 4)" by presburger+
  have "real (4 * ((n + 3) div 4)) < real (n + 4)" using a(1) of_nat_less_iff by blast
  then show "of_int (int ((n + 3) div 4)) - 1 < real n / 4" by simp
  have "real n \<le> real (4 * ((n + 3) div 4))" using a(2) of_nat_le_iff by blast
  then show "real n / 4 \<le> of_int (int ((n + 3) div 4))" by simp
qed

lemma full_rows_but_last: "list_all (\<lambda>r. length r = 4) (butlast (card_rows xs))"
proof -
  have "\<And>r. r < (length xs + 3) div 4 - 1 \<Longrightarrow> min (r * 4 + 4) (length xs) = r * 4 + 4"
    by (simp add: min_def)
  then show ?thesis
    by (simp add: list_all_length card_rows_def cols_per_row_def Let_def nth_butlast add.commute)
qed

text \<open>
  C2: a day of N entries is laid out in exactly ceil(N/4) rows of cards; every row but
  the last holds exactly 4 cards; and the rows, read in order, are the day's entries in
  their original order, each read by \<open>iloc\<close> without an exception.
\<close>

theorem card_rows_chunking:
  "int (length (card_rows xs)) = \<lceil>real (length xs) / 4\<rceil>
   \<and> list_all (\<lambda>r. length r = 4) (butlast (card_rows xs))
   \<and> concat (card_rows xs) = map Inr xs"
  by (simp add: length_card_rows ceiling_quarter full_rows_but_last concat_card_rows)

section \<open>Properties of the current-conditions display\<close>

lemma optional_fields_marked:
  "snd (display_weather (sample_current\<lparr>visibility := None, cloud_all := None\<rparr>)) = None
   \<and> {Metric ''Visibility'' [Lit ''N/A''], Metric ''Cloudiness'' [Lit ''N/A''],
       Metric ''Wind Gust'' [Lit ''N/A'']}
      \<subseteq> set (fst (display_weather (sample_current\<lparr>visibility := None, cloud_all := None\<rparr>)))"
  by code_simp

text \<open>
  C7 does not hold of the code: the temperature is read with \<open>.get('temp')\<close> and then
  formatted with \<open>{temp:.1f}\<close> without the \<open>is not None\<close> guard that visibility,
  cloudiness and the wind gust have. For a payload without the key \<open>temp\<close> the routine
  writes the title, the columns and the condition line and then raises \<open>TypeError\<close>;
  no \<open>N/A\<close> marker is written for the temperature.
\<close>

theorem missing_temp_raises:
  "display_weather no_temp_current =
     ([Markdown [Lit ''## Current Weather in '', Lit ''Pune'', Lit '', '', Lit ''IN''],
       Columns 2,
       Markdown [Lit ''### '', Lit '' Clear Sky (Clear sky)'']],
      Some TypeError)"
  by code_simp

section \<open>Properties of the fetch routines\<close>

lemma requests_say: "requests (say evs w) = requests w"
  by (simp add: say_def)

lemma ui_say: "ui (say evs w) = ui w @ evs"
  by (simp add: say_def)

lemma requests_send: "requests (send r w) = requests w @ [r]"
  by (simp add: send_def)

lemma ui_send: "ui (send r w) = ui w"
  by (simp add: send_def)

lemmas world_simps = requests_say ui_say requests_send ui_send

text \<open>
  C8: when the secrets hold no API key, both fetch routines return \<open>None\<close>, write the
  two error boxes about the missing key, and send no request: the list of requests is
  unchanged, whatever the API would have answered.
\<close>

theorem credential_missing_no_request:
  assumes "secrets ''openweathermap_api_key'' = None"
  shows "fst (get_current_weather_data (OWM_API_KEY secrets) api1 city cc w) = None
       \<and> requests (snd (get_current_weather_data (OWM_API_KEY secrets) api1 city cc w)) = requests w
       \<and> ui (snd (get_current_weather_data (OWM_API_KEY secrets) api1 city cc w))
           = ui w @ [Error_box [Lit '' **Error: OpenWeatherMap API key not found.**''],
                     Error_box [Lit ''Please create a `.streamlit/secrets.toml` file and add the `openweathermap_api_key`.'']]
       \<and> fst (get_forecast_data (OWM_API_KEY secrets) api2 city cc w) = None
       \<and> requests (snd (get_forecast_data (OWM_API_KEY secrets) api2 city cc w)) = requests w
       \<and> ui (snd (get_forecast_data (OWM_API_KEY secrets) api2 city cc w))
           = ui w @ [Error_box [Lit '' **Error: OpenWeatherMap API key not found.**''],
                     Error_box [Lit ''Please create a `.streamlit/secrets.toml` file and add the `openweathermap_api_key`.'']]"
  using assms
  by (simp add: OWM_API_KEY_def get_current_weather_data_def get_forecast_data_def
      handle_api_error_def say_def)

theorem credential_missing_no_request_witness:
  "Map.empty ''openweathermap_api_key'' = (None :: string option)
   \<and> fst (get_current_weather_data (OWM_API_KEY Map.empty) (sample_api sample_current)
            ''Pune'' ''IN'' empty_world) = None
   \<and> requests (snd (get_current_weather_data (OWM_API_KEY Map.empty) (sample_api sample_current)
            ''Pune'' ''IN'' empty_world)) = []
   \<and> fst (get_forecast_data (OWM_API_KEY Map.empty) (sample_api sample_forecast)
            ''Pune'' ''IN'' empty_world) = None
   \<and> requests (snd (get_forecast_data (OWM_API_KEY Map.empty) (sample_api sample_forecast)
            ''Pune'' ''IN'' empty_world)) = []"
  using credential_missing_no_request [of Map.empty "sample_api sample_current" "''Pune''" "''IN''"
      empty_world "sample_api sample_forecast"]
  by (simp add: empty_world_def)

lemma current_404:
  assumes "api_key \<noteq> PLACEHOLDER"
    and "current_api \<lparr>url = CURRENT_WEATHER_URL, params = query_of api_key city cc\<rparr>
         = Response 404 body"
  shows "get_current_weather_data api_key current_api city cc w =
           (None, say [Error_box [Lit ''City '', Lit [CHR 0x27], Lit city, Lit [CHR 0x27],
                   Lit '' not found for current weather. Please select another city.'']]
                  (send \<lparr>url = CURRENT_WEATHER_URL, params = query_of api_key city cc\<rparr> w))"
  using assms by (simp add: get_current_weather_data_def handle_api_error_def)

lemma current_requests:
  "requests (snd (get_current_weather_data api_key api city cc w)) =
     requests w @ (if api_key = PLACEHOLDER then []
                   else [\<lparr>url = CURRENT_WEATHER_URL, params = query_of api_key city cc\<rparr>])"
  by (simp add: get_current_weather_data_def handle_api_error_def Let_def world_simps
      split: response.splits)

lemma urls_differ: "CURRENT_WEATHER_URL \<noteq> FORECAST_URL"
  by (simp add: CURRENT_WEATHER_URL_def FORECAST_URL_def)

lemma main_without_current:
  assumes "fst (get_current_weather_data api_key current_api (get_default [] sel) cc w) = None"
    and "r \<in> set (drop (length (requests w))
           (requests (fst (main_content api_key current_api forecast_api fb sel cname cc w))))"
  shows "url r = CURRENT_WEATHER_URL"
proof -
  obtain w1 where g:
    "get_current_weather_data api_key current_api (get_default [] sel) cc w = (None, w1)"
    using assms(1)
    by (cases "get_current_weather_data api_key current_api (get_default [] sel) cc w") auto
  have "requests w1 = requests w @ (if api_key = PLACEHOLDER then []
          else [\<lparr>url = CURRENT_WEATHER_URL, params = query_of api_key (get_default [] sel) cc\<rparr>])"
    using current_requests [of api_key current_api "get_default [] sel" cc w] g by simp
  then show ?thesis
    using g assms(2) by (auto simp add: main_content_def world_simps split: if_splits)
qed

text \<open>
  C9: with a key configured, when the current-conditions endpoint answers the query
  with 404, \<open>main\<close> sends that one request, writes the error box naming the city, and
  ends without an exception and without a forecast request. And in every run of \<open>main\<close>,
  a request to the forecast endpoint is sent only if the current-conditions fetch
  returned a payload.
\<close>

theorem not_found_no_forecast:
  "(api_key \<noteq> PLACEHOLDER \<and> city \<noteq> []
     \<and> current_api \<lparr>url = CURRENT_WEATHER_URL, params = query_of api_key city cc\<rparr>
         = Response 404 body
    \<longrightarrow> main_content api_key current_api forecast_api True (Some city) cname cc w
         = (say [Error_box [Lit ''City '', Lit [CHR 0x27], Lit city, Lit [CHR 0x27],
                   Lit '' not found for current weather. Please select another city.'']]
                (send \<lparr>url = CURRENT_WEATHER_URL, params = query_of api_key city cc\<rparr> w),
            None))
   \<and> (r \<in> set (drop (length (requests w))
                 (requests (fst (main_content api_key current_api forecast_api fb sel cname cc w))))
       \<and> url r = FORECAST_URL
       \<longrightarrow> fst (get_current_weather_data api_key current_api (get_default [] sel) cc w) \<noteq> None)"
proof (intro conjI impI)
  assume "api_key \<noteq> PLACEHOLDER \<and> city \<noteq> []
     \<and> current_api \<lparr>url = CURRENT_WEATHER_URL, params = query_of api_key city cc\<rparr>
         = Response 404 body"
  then show "main_content api_key current_api forecast_api True (Some city) cname cc w
         = (say [Error_box [Lit ''City '', Lit [CHR 0x27], Lit city, Lit [CHR 0x27],
                   Lit '' not found for current weather. Please select another city.'']]
                (send \<lparr>url = CURRENT_WEATHER_URL, params = query_of api_key city cc\<rparr> w),
            None)"
    using current_404 [of api_key current_api city cc body w]
    by (simp add: main_content_def truthy_city_def get_default_def)
next
  assume b: "r \<in> set (drop (length (requests w))
                 (requests (fst (main_content api_key current_api forecast_api fb sel cname cc w))))
       \<and> url r = FORECAST_URL"
  show "fst (get_current_weather_data api_key current_api (get_default [] sel) cc w) \<noteq> None"
  proof
    assume "fst (get_current_weather_data api_key current_api (get_default [] sel) cc w) = None"
    then have "url r = CURRENT_WEATHER_URL"
      using b main_without_current by blast
    with b urls_differ show False by simp
  qed
qed

lemma sample_run_not_found:
  "''k'' \<noteq> PLACEHOLDER \<and> ''Atlantis'' \<noteq> []
   \<and> sample_api sample_current
        \<lparr>url = CURRENT_WEATHER_URL, params = query_of ''k'' ''Atlantis'' ''IN''\<rparr>
      = Response 404 sample_current"
  by code_simp

lemma sample_run_found:
  "\<lparr>url = FORECAST_URL, params = query_of ''k'' ''Pune'' ''IN''\<rparr>
     \<in> set (drop (length (requests empty_world))
          (requests (fst (main_content ''k'' (sample_api sample_current)
             (sample_api sample_forecast) True (Some ''Pune'') ''India'' ''IN'' empty_world))))"
  by code_simp

theorem not_found_no_forecast_witness:
  "requests (fst (main_content ''k'' (sample_api sample_current) (sample_api sample_forecast)
               True (Some ''Atlantis'') ''India'' ''IN'' empty_world))
     = [\<lparr>url = CURRENT_WEATHER_URL, params = query_of ''k'' ''Atlantis'' ''IN''\<rparr>]
   \<and> snd (main_content ''k'' (sample_api sample_current) (sample_api sample_forecast)
               True (Some ''Atlantis'') ''India'' ''IN'' empty_world) = None
   \<and> fst (get_current_weather_data ''k'' (sample_api sample_current) ''Pune'' ''IN'' empty_world)
       \<noteq> None"
  using not_found_no_forecast [of "''k''" "''Atlantis''" "sample_api sample_current" "''IN''"
      sample_current "sample_api sample_forecast" "''India''" empty_world
      "\<lparr>url = FORECAST_URL, params = query_of ''k'' ''Pune'' ''IN''\<rparr>" True "Some ''Pune''"]
    sample_run_not_found sample_run_found
  by (simp add: world_simps empty_world_def get_default_def)

section \<open>Properties of the forecast display\<close>

lemma empty_list_warns:
  "entries data = None \<or> entries data = Some []
   \<Longrightarrow> display_forecast data tz
       = ([Warning_box [Lit ''No forecast data available for this location.'']], None)"
  by (auto simp add: display_forecast_def get_default_def)

text \<open>
  C6 does not hold of the code: the emptiness test is made on the raw list, before the
  loop that skips entries without a timestamp. For a list whose only entry has no key
  \<open>dt\<close> the loop leaves no row, the table has no column \<open>FilterDate\<close>, and the routine
  raises \<open>KeyError\<close> without having written a warning.
\<close>

theorem all_entries_skipped_raises:
  "display_forecast \<lparr>other_keys = [''cod''], entries = Some [sample_entry None]\<rparr> (Some 0)
     = ([], Some KeyError)"
  by code_simp

section \<open>Properties of dates and times\<close>

lemma month_day_of_rest:
  fixes r :: int
  assumes "0 \<le> r" "r < 365 + (if leap then 1 else 0)"
  defines "m \<equiv> (r + 50) div 32"
  defines "preceding \<equiv> DAYS_BEFORE_MONTH ! nat m + (if 2 < m \<and> leap then 1 else 0)"
  defines "res \<equiv> (if r < preceding
              then (m - 1, r - (preceding - (DAYS_IN_MONTH ! nat (m - 1)
                                      + (if m - 1 = 2 \<and> leap then 1 else 0))) + 1)
              else (m, r - preceding + 1))"
  shows "1 \<le> fst res \<and> fst res \<le> 12 \<and> 1 \<le> snd res
         \<and> snd res \<le> (if fst res = 2 \<and> leap then 29 else DAYS_IN_MONTH ! nat (fst res))
         \<and> DAYS_BEFORE_MONTH ! nat (fst res) + (if 2 < fst res \<and> leap then 1 else 0) + snd res = r + 1"
proof -
  have m1: "32 * m \<le> r + 50" "r + 50 < 32 * m + 32"
    unfolding m_def by (simp_all add: zdiv_mono1 div_mult_mod_eq algebra_simps)
  then have "1 \<le> m" "m \<le> 12" using assms(1,2) by (auto split: if_splits)
  then have "m = 1 \<or> m = 2 \<or> m = 3 \<or> m = 4 \<or> m = 5 \<or> m = 6 \<or> m = 7
    \<or> m = 8 \<or> m = 9 \<or> m = 10 \<or> m = 11 \<or> m = 12"
    by arith
  then consider "m = 1" | "m = 2" | "m = 3" | "m = 4" | "m = 5" | "m = 6" | "m = 7"
    | "m = 8" | "m = 9" | "m = 10" | "m = 11" | "m = 12"
    by blast
  then show ?thesis
    using m1 assms(1,2)
    by cases (auto simp add: res_def preceding_def DAYS_BEFORE_MONTH_def DAYS_IN_MONTH_def split: if_splits)
qed

lemma div_by_parts:
  fixes x k q r :: int
  assumes "x = k * q + r" "0 \<le> r" "r < k"
  shows "x div k = q" and "x mod k = r"
  using assms by (simp_all add: int_div_pos_eq int_mod_pos_eq)

lemma year_parts:
  fixes a b c d :: int
  assumes "0 \<le> b" "b \<le> 3" "0 \<le> c" "c \<le> 24" "0 \<le> d" "d \<le> 3"
  shows "days_before_year (400 * a + 100 * b + 4 * c + d + 1)
           = 146097 * a + 36524 * b + 1461 * c + 365 * d"
    and "is_leap (400 * a + 100 * b + 4 * c + d + 1) \<longleftrightarrow> d = 3 \<and> (c \<noteq> 24 \<or> b = 3)"
proof -
  let ?y = "400 * a + 100 * b + 4 * c + d"
  have d4: "?y div 4 = 100 * a + 25 * b + c"
    by (rule div_by_parts(1) [where r = d]) (use assms in auto)
  have d100: "?y div 100 = 4 * a + b"
    by (rule div_by_parts(1) [where r = "4 * c + d"]) (use assms in auto)
  have d400: "?y div 400 = a"
    by (rule div_by_parts(1) [where r = "100 * b + 4 * c + d"]) (use assms in auto)
  show "days_before_year (?y + 1) = 146097 * a + 36524 * b + 1461 * c + 365 * d"
    by (simp add: days_before_year_def Let_def d4 d100 d400)
  show "is_leap (?y + 1) \<longleftrightarrow> d = 3 \<and> (c \<noteq> 24 \<or> b = 3)"
  proof (cases "d = 3")
    case False
    have "(?y + 1) mod 4 = d + 1"
      by (rule div_by_parts(2) [where q = "100 * a + 25 * b + c"]) (use assms False in auto)
    then show ?thesis using False assms by (simp add: is_leap_def)
  next
    case d3: True
    have y4: "(?y + 1) mod 4 = 0"
      by (rule div_by_parts(2) [where q = "100 * a + 25 * b + c + 1"]) (use d3 in auto)
    show ?thesis
    proof (cases "c = 24")
      case False
      have "(?y + 1) mod 100 = 4 * c + 4"
        by (rule div_by_parts(2) [where q = "4 * a + b"]) (use assms d3 False in auto)
      then show ?thesis using False d3 y4 assms by (simp add: is_leap_def)
    next
      case c24: True
      have y100: "(?y + 1) mod 100 = 0"
        by (rule div_by_parts(2) [where q = "4 * a + b + 1"]) (use d3 c24 in auto)
      show ?thesis
      proof (cases "b = 3")
        case False
        have "(?y + 1) mod 400 = 100 * b + 100"
          by (rule div_by_parts(2) [where q = a]) (use assms d3 c24 False in auto)
        then show ?thesis using False d3 c24 y4 y100 assms by (simp add: is_leap_def)
      next
        case True
        have "(?y + 1) mod 400 = 0"
          by (rule div_by_parts(2) [where q = "a + 1"]) (use d3 c24 True in auto)
        then show ?thesis using True d3 c24 y4 y100 by (simp add: is_leap_def)
      qed
    qed
  qed
qed

lemma ord_parts:
  fixes n :: int
  defines "a \<equiv> (n - 1) div 146097"
  defines "b \<equiv> (n - 1) mod 146097 div 36524"
  defines "c \<equiv> (n - 1) mod 146097 mod 36524 div 1461"
  defines "d \<equiv> (n - 1) mod 146097 mod 36524 mod 1461 div 365"
  defines "r \<equiv> (n - 1) mod 146097 mod 36524 mod 1461 mod 365"
  shows "n - 1 = 146097 * a + 36524 * b + 1461 * c + 365 * d + r"
    and "0 \<le> b" "b \<le> 4" "0 \<le> c" "c \<le> 24" "0 \<le> d" "d \<le> 4" "0 \<le> r" "r < 365"
    and "b = 4 \<Longrightarrow> c = 0 \<and> d = 0 \<and> r = 0"
    and "d = 4 \<Longrightarrow> r = 0 \<and> c \<le> 23"
proof -
  define r400 where "r400 = (n - 1) mod 146097"
  define r100 where "r100 = r400 mod 36524"
  define r4 where "r4 = r100 mod 1461"
  have e1: "n - 1 = 146097 * a + r400" "0 \<le> r400" "r400 < 146097"
    by (simp_all add: a_def r400_def)
  have e2: "r400 = 36524 * b + r100" "0 \<le> r100" "r100 < 36524"
    by (simp_all add: b_def r100_def r400_def)
  have e3: "r100 = 1461 * c + r4" "0 \<le> r4" "r4 < 1461"
    by (simp_all add: c_def r4_def r100_def r400_def)
  have e4: "r4 = 365 * d + r" "0 \<le> r" "r < 365"
    by (simp_all add: d_def r_def r4_def r100_def r400_def)
  show "n - 1 = 146097 * a + 36524 * b + 1461 * c + 365 * d + r"
    using e1 e2 e3 e4 by linarith
  show "0 \<le> b" "b \<le> 4" "0 \<le> c" "c \<le> 24" "0 \<le> d" "d \<le> 4" "0 \<le> r" "r < 365"
    using e1 e2 e3 e4 by linarith+
  show "c = 0 \<and> d = 0 \<and> r = 0" if "b = 4"
  proof -
    have "r100 = 0" using that e1 e2 by linarith
    then have c0: "c = 0" using e3 by linarith
    then have "r4 = 0" using \<open>r100 = 0\<close> e3 by linarith
    then have d0: "d = 0" using e4 by linarith
    then have "r = 0" using \<open>r4 = 0\<close> e4 by linarith
    then show ?thesis using c0 d0 by simp
  qed
  show "r = 0 \<and> c \<le> 23" if "d = 4"
  proof -
    have "r = 0" using that e3 e4 by linarith
    moreover have "c \<le> 23" using that e2 e3 e4 by linarith
    ultimately show ?thesis by simp
  qed
qed

lemma ord2ymd_parts:
  "ord2ymd n = ymd_of_parts ((n - 1) div 146097) ((n - 1) mod 146097 div 36524)
     ((n - 1) mod 146097 mod 36524 div 1461) ((n - 1) mod 146097 mod 36524 mod 1461 div 365)
     ((n - 1) mod 146097 mod 36524 mod 1461 mod 365)"
  by (simp only: ord2ymd_def ymd_of_parts_def Let_def)

lemma december_31:
  "is_leap y \<Longrightarrow> ymd2ord y 12 31 = days_before_year y + 366 \<and> valid_ymd (y, 12, 31)"
  by (simp add: valid_ymd_def ymd2ord_def days_before_month_def days_in_month_def
      DAYS_BEFORE_MONTH_def DAYS_IN_MONTH_def)

lemma last_day_of_leap_year:
  fixes a b c n :: int
  assumes "0 \<le> b" "b \<le> 3" "0 \<le> c" "c \<le> 24" "c \<noteq> 24 \<or> b = 3"
    and n: "n = 146097 * a + 36524 * b + 1461 * c + 1461"
  shows "valid_ymd (400 * a + 100 * b + 4 * c + 4, 12, 31)"
    and "ymd2ord (400 * a + 100 * b + 4 * c + 4) 12 31 = n"
proof -
  have y: "400 * a + 100 * b + 4 * c + 4 = 400 * a + 100 * b + 4 * c + 3 + 1" by simp
  have dby: "days_before_year (400 * a + 100 * b + 4 * c + 3 + 1)
              = 146097 * a + 36524 * b + 1461 * c + 365 * 3"
    by (rule year_parts(1)) (use assms(1-4) in simp_all)
  have lp: "is_leap (400 * a + 100 * b + 4 * c + 3 + 1)"
    using year_parts(2) [of b c 3 a] assms(1-5) by simp
  show "valid_ymd (400 * a + 100 * b + 4 * c + 4, 12, 31)"
    unfolding y using december_31 [OF lp] by blast
  have "ymd2ord (400 * a + 100 * b + 4 * c + 3 + 1) 12 31
          = 146097 * a + 36524 * b + 1461 * c + 365 * 3 + 366"
    using december_31 [OF lp] dby by linarith
  then show "ymd2ord (400 * a + 100 * b + 4 * c + 4) 12 31 = n"
    unfolding y n by linarith
qed

lemma ymd_of_parts_correct:
  fixes n a b c d r :: int
  assumes n: "n - 1 = 146097 * a + 36524 * b + 1461 * c + 365 * d + r"
    and bounds: "0 \<le> b" "b \<le> 4" "0 \<le> c" "c \<le> 24" "0 \<le> d" "d \<le> 4" "0 \<le> r" "r < 365"
    and b4: "b = 4 \<Longrightarrow> c = 0 \<and> d = 0 \<and> r = 0"
    and d4: "d = 4 \<Longrightarrow> r = 0 \<and> c \<le> 23"
  shows "valid_ymd (ymd_of_parts a b c d r)"
    and "(case ymd_of_parts a b c d r of (y, m, dd) \<Rightarrow> ymd2ord y m dd) = n"
proof -
  have "valid_ymd (ymd_of_parts a b c d r)
        \<and> (case ymd_of_parts a b c d r of (y, m, dd) \<Rightarrow> ymd2ord y m dd) = n"
  proof (cases "d = 4 \<or> b = 4")
    case True
    have o: "ymd_of_parts a b c d r = (a * 400 + 1 + b * 100 + c * 4 + d - 1, 12, 31)"
      using True by (simp only: ymd_of_parts_def Let_def if_True)
    have "\<exists>b' c'. 0 \<le> b' \<and> b' \<le> 3 \<and> 0 \<le> c' \<and> c' \<le> 24 \<and> (c' \<noteq> 24 \<or> b' = 3)
            \<and> a * 400 + 1 + b * 100 + c * 4 + d - 1 = 400 * a + 100 * b' + 4 * c' + 4
            \<and> n = 146097 * a + 36524 * b' + 1461 * c' + 1461"
    proof (cases "b = 4")
      case b4': True
      then have z: "c = 0" "d = 0" "r = 0" using b4 by simp_all
      have "a * 400 + 1 + b * 100 + c * 4 + d - 1 = 400 * a + 100 * 3 + 4 * 24 + 4"
        using b4' z by linarith
      moreover have "n = 146097 * a + 36524 * 3 + 1461 * 24 + 1461"
        using b4' z n by linarith
      ultimately show ?thesis by (intro exI [of _ 3] exI [of _ 24]) linarith
    next
      case False
      then have e: "d = 4" "b \<le> 3" "r = 0" "c \<le> 23" using True bounds(2) d4 by auto
      have "a * 400 + 1 + b * 100 + c * 4 + d - 1 = 400 * a + 100 * b + 4 * c + 4"
        using e by linarith
      moreover have "n = 146097 * a + 36524 * b + 1461 * c + 1461"
        using e n by linarith
      moreover have "c \<noteq> 24" using e by linarith
      ultimately show ?thesis using e(2) bounds(1) bounds(3) bounds(4)
        by (intro exI [of _ b] exI [of _ c]) blast
    qed
    then obtain b' c' where q: "0 \<le> b'" "b' \<le> 3" "0 \<le> c'" "c' \<le> 24" "c' \<noteq> 24 \<or> b' = 3"
      "a * 400 + 1 + b * 100 + c * 4 + d - 1 = 400 * a + 100 * b' + 4 * c' + 4"
      "n = 146097 * a + 36524 * b' + 1461 * c' + 1461"
      by blast
    have "valid_ymd (400 * a + 100 * b' + 4 * c' + 4, 12, 31)"
      and "ymd2ord (400 * a + 100 * b' + 4 * c' + 4) 12 31 = n"
      using last_day_of_leap_year [OF q(1-5) q(7)] by blast+
    then show ?thesis
      unfolding o q(6) by simp
  next
    case False
    then have bd: "b \<le> 3" "d \<le> 3" using bounds(2) bounds(6) by auto
    define y where "y = a * 400 + 1 + b * 100 + c * 4 + d"
    define leap where "leap \<longleftrightarrow> d = 3 \<and> (c \<noteq> 24 \<or> b = 3)"
    define m where "m = (r + 50) div 32"
    define preceding where
      "preceding = DAYS_BEFORE_MONTH ! nat m + (if 2 < m \<and> leap then 1 else 0)"
    define res where "res = (if r < preceding
              then (m - 1, r - (preceding - (DAYS_IN_MONTH ! nat (m - 1)
                                      + (if m - 1 = 2 \<and> leap then 1 else 0))) + 1)
              else (m, r - preceding + 1))"
    have o: "ymd_of_parts a b c d r = (y, fst res, snd res)"
      using False
      by (simp add: ymd_of_parts_def Let_def y_def leap_def m_def preceding_def res_def)
    have y': "y = 400 * a + 100 * b + 4 * c + d + 1" unfolding y_def by linarith
    have yp: "days_before_year y = 146097 * a + 36524 * b + 1461 * c + 365 * d"
      "is_leap y = leap"
      unfolding y' leap_def using year_parts [of b c d a] bounds(1) bounds(3-5) bd by blast+
    have "r < 365 + (if leap then 1 else 0)" using bounds(8) by simp
    from month_day_of_rest [OF bounds(7) this]
    have md: "1 \<le> fst res" "fst res \<le> 12" "1 \<le> snd res"
      "snd res \<le> (if fst res = 2 \<and> leap then 29 else DAYS_IN_MONTH ! nat (fst res))"
      "DAYS_BEFORE_MONTH ! nat (fst res) + (if 2 < fst res \<and> leap then 1 else 0) + snd res
         = r + 1"
      unfolding res_def preceding_def m_def by simp_all
    have v: "valid_ymd (y, fst res, snd res)"
      using md(1-4) by (simp add: valid_ymd_def days_in_month_def yp(2) case_prod_beta)
    have "ymd2ord y (fst res) (snd res) = days_before_year y + (r + 1)"
      using md(5) by (simp add: ymd2ord_def days_before_month_def yp(2))
    also have "\<dots> = n" using yp(1) n by linarith
    finally show ?thesis unfolding o using v by (simp add: case_prod_beta)
  qed
  then show "valid_ymd (ymd_of_parts a b c d r)"
    and "(case ymd_of_parts a b c d r of (y, m, dd) \<Rightarrow> ymd2ord y m dd) = n"
    by blast+
qed

lemma ord2ymd_correct:
  "valid_ymd (ord2ymd n)" "(case ord2ymd n of (y, m, d) \<Rightarrow> ymd2ord y m d) = n"
proof -
  note p = ord_parts [of n]
  show "valid_ymd (ord2ymd n)"
    unfolding ord2ymd_parts
    by (rule ymd_of_parts_correct(1) [OF p(1) p(2) p(3) p(4) p(5) p(6) p(7) p(8) p(9) p(10) p(11)])
  show "(case ord2ymd n of (y, m, d) \<Rightarrow> ymd2ord y m d) = n"
    unfolding ord2ymd_parts
    by (rule ymd_of_parts_correct(2) [OF p(1) p(2) p(3) p(4) p(5) p(6) p(7) p(8) p(9) p(10) p(11)])
qed

lemma toordinal_combine: "toordinal (combine (ord2ymd n) s) = n"
  using ord2ymd_correct(2) [of n]
  by (cases "ord2ymd n") (simp add: toordinal_def combine_def)

lemma seconds_of_day:
  fixes s :: int
  shows "s div 3600 * 3600 + s mod 3600 div 60 * 60 + s mod 60 = s"
proof -
  have "s mod 3600 div 60 * 60 + s mod 3600 mod 60 = s mod 3600" by simp
  moreover have "s mod 3600 mod 60 = s mod 60"
    by (rule mod_mod_cancel) simp
  moreover have "s div 3600 * 3600 + s mod 3600 = s" by simp
  ultimately show ?thesis by linarith
qed

lemma timestamp_of_combine:
  "timestamp_of (combine (ord2ymd n) s) = (n - 719163) * 86400 + s"
proof -
  have "hour (combine (ord2ymd n) s) * 3600 + minute (combine (ord2ymd n) s) * 60
          + second (combine (ord2ymd n) s) = s"
    using seconds_of_day [of s] by (cases "ord2ymd n") (simp add: combine_def)
  then show ?thesis
    unfolding timestamp_of_def toordinal_combine by linarith
qed

lemma in_range_ordinal:
  "in_datetime_range t \<longleftrightarrow> 1 \<le> t div 86400 + 719163 \<and> t div 86400 + 719163 \<le> MAXORDINAL"
proof -
  define q where "q = t div 86400"
  define r where "r = t mod 86400"
  have t: "t = 86400 * q + r" "0 \<le> r" "r < 86400"
    by (simp_all add: q_def r_def)
  have "in_datetime_range t \<longleftrightarrow> 1 \<le> q + 719163 \<and> q + 719163 \<le> 3652059"
    unfolding in_datetime_range_def
  proof (intro iffI conjI)
    assume "- 62135596800 \<le> t \<and> t \<le> 253402300799"
    then show "1 \<le> q + 719163" "q + 719163 \<le> 3652059" using t by linarith+
  next
    assume "1 \<le> q + 719163 \<and> q + 719163 \<le> 3652059"
    then show "- 62135596800 \<le> t" "t \<le> 253402300799" using t by linarith+
  qed
  then show ?thesis by (simp add: q_def MAXORDINAL_def)
qed

lemma utcfromtimestamp_in_range:
  "in_datetime_range t \<Longrightarrow>
     utcfromtimestamp t = Inr (combine (ord2ymd (t div 86400 + 719163)) (t mod 86400))"
  by (simp add: utcfromtimestamp_def in_range_ordinal Let_def)

lemma utcfromtimestamp_out_of_range:
  "\<not> in_datetime_range t \<Longrightarrow> utcfromtimestamp t = Inl ValueError"
  by (auto simp add: utcfromtimestamp_def in_range_ordinal Let_def)

lemma timestamp_of_utcfromtimestamp:
  "utcfromtimestamp t = Inr u \<Longrightarrow> timestamp_of u = t"
proof -
  assume a: "utcfromtimestamp t = Inr u"
  then have "in_datetime_range t" using utcfromtimestamp_out_of_range [of t] by auto
  then have "u = combine (ord2ymd (t div 86400 + 719163)) (t mod 86400)"
    using a utcfromtimestamp_in_range by simp
  then have "timestamp_of u = (t div 86400) * 86400 + t mod 86400"
    by (simp add: timestamp_of_combine)
  then show ?thesis by simp
qed

lemma timedelta_total:
  "timedelta_of_seconds z = Inr td \<Longrightarrow> days td * 86400 + seconds td = z"
  by (auto simp add: timedelta_of_seconds_def Let_def split: if_splits)

lemma timestamp_of_datetime_add:
  assumes "datetime_add u td = Inr v"
  shows "timestamp_of v = timestamp_of u + days td * 86400 + seconds td"
proof -
  define total where "total = hour u * 3600 + minute u * 60 + second u + seconds td"
  define n where "n = toordinal u + days td + total div 86400"
  have "v = combine (ord2ymd n) (total mod 86400)"
    using assms by (simp add: datetime_add_def Let_def total_def n_def split: if_splits)
  then have "timestamp_of v = (n - 719163) * 86400 + total mod 86400"
    by (simp add: timestamp_of_combine)
  moreover have "total div 86400 * 86400 + total mod 86400 = total" by simp
  ultimately show ?thesis
    unfolding n_def total_def timestamp_of_def by (simp add: algebra_simps)
qed

lemma local_time_is_sum:
  assumes "convert_timestamp_to_local (Some t) (Some z) = Inr (Some v)"
  shows "timestamp_of v = t + z"
proof -
  from assms obtain u td where
    u: "utcfromtimestamp t = Inr u" and td: "timedelta_of_seconds z = Inr td"
    and v: "datetime_add u td = Inr v"
    by (auto simp add: convert_timestamp_to_local_def split: sum.splits)
  show ?thesis
    using timestamp_of_utcfromtimestamp [OF u] timedelta_total [OF td]
      timestamp_of_datetime_add [OF v]
    by linarith
qed

lemma hms_of_combine:
  "hour (combine (ord2ymd n) s) * 3600 + minute (combine (ord2ymd n) s) * 60
     + second (combine (ord2ymd n) s) = s"
  using seconds_of_day [of s] by (cases "ord2ymd n") (simp add: combine_def)

lemma local_time_in_range:
  assumes "in_datetime_range t" "in_datetime_range (t + z)"
  shows "convert_timestamp_to_local (Some t) (Some z)
           = Inr (Some (combine (ord2ymd ((t + z) div 86400 + 719163)) ((t + z) mod 86400)))"
proof -
  define u where "u = combine (ord2ymd (t div 86400 + 719163)) (t mod 86400)"
  have u: "utcfromtimestamp t = Inr u"
    unfolding u_def using assms(1) by (rule utcfromtimestamp_in_range)
  define q where "q = z div 86400"
  define r where "r = z mod 86400"
  have z: "z = 86400 * q + r" "0 \<le> r" "r < 86400" by (simp_all add: q_def r_def)
  have "- 999999999 \<le> q \<and> q \<le> 999999999"
    using assms z unfolding in_datetime_range_def by linarith
  then have td: "timedelta_of_seconds z = Inr \<lparr>days = q, seconds = r\<rparr>"
    by (simp add: timedelta_of_seconds_def Let_def q_def r_def)
  define total where "total = t mod 86400 + r"
  have total: "hour u * 3600 + minute u * 60 + second u + r = total"
    unfolding u_def total_def using hms_of_combine by simp
  have "(t + z) div 86400 = t div 86400 + z div 86400 + (t mod 86400 + z mod 86400) div 86400"
    by (rule div_add1_eq)
  then have n: "toordinal u + q + total div 86400 = (t + z) div 86400 + 719163"
    unfolding u_def toordinal_combine total_def q_def r_def by linarith
  have m: "total mod 86400 = (t + z) mod 86400"
    unfolding total_def r_def by (rule mod_add_eq)
  have "0 < (t + z) div 86400 + 719163 \<and> (t + z) div 86400 + 719163 \<le> MAXORDINAL"
    using assms(2) in_range_ordinal [of "t + z"] by linarith
  then have "datetime_add u \<lparr>days = q, seconds = r\<rparr>
      = Inr (combine (ord2ymd ((t + z) div 86400 + 719163)) ((t + z) mod 86400))"
    by (simp add: datetime_add_def Let_def total n m)
  then show ?thesis
    by (simp add: convert_timestamp_to_local_def u td)
qed

text \<open>
  C5, as stated, fails: a timestamp beyond the year 9999 is not missing, and the
  conversion raises instead of computing a local time.
\<close>

theorem local_time_out_of_range:
  "convert_timestamp_to_local (Some 253402300800) (Some 0) = Inl ValueError"
  by code_simp

text \<open>
  C5, amended: for a timestamp and an offset such that the UTC instant and the local
  instant fall in the years 1 to 9999, the conversion returns a local time, and it is
  exactly the timestamp plus the offset (the date and time of that instant). When the
  timestamp or the offset is missing the conversion returns \<open>None\<close>, and the loop over
  the forecast list skips the entry and goes on with the rest.
\<close>

theorem local_time_exact:
  "(in_datetime_range t \<and> in_datetime_range (t + z)
    \<longrightarrow> (\<exists>v. convert_timestamp_to_local (Some t) (Some z) = Inr (Some v)
             \<and> timestamp_of v = t + z \<and> utcfromtimestamp (t + z) = Inr v))
   \<and> convert_timestamp_to_local None tz = Inr None
   \<and> convert_timestamp_to_local ts None = Inr None
   \<and> (dt entry = None \<or> tz = None \<longrightarrow> build_rows (entry # rest) tz = build_rows rest tz)"
proof (intro conjI impI)
  assume a: "in_datetime_range t \<and> in_datetime_range (t + z)"
  then have c: "convert_timestamp_to_local (Some t) (Some z)
           = Inr (Some (combine (ord2ymd ((t + z) div 86400 + 719163)) ((t + z) mod 86400)))"
    using local_time_in_range by blast
  moreover have "utcfromtimestamp (t + z)
           = Inr (combine (ord2ymd ((t + z) div 86400 + 719163)) ((t + z) mod 86400))"
    using a utcfromtimestamp_in_range by blast
  ultimately show "\<exists>v. convert_timestamp_to_local (Some t) (Some z) = Inr (Some v)
             \<and> timestamp_of v = t + z \<and> utcfromtimestamp (t + z) = Inr v"
    using local_time_is_sum [OF c] by blast
next
  show "convert_timestamp_to_local None tz = Inr None"
    by (simp add: convert_timestamp_to_local_def)
  show n: "convert_timestamp_to_local ts None = Inr None"
    by (cases ts) (simp_all add: convert_timestamp_to_local_def)
next
  assume "dt entry = None \<or> tz = None"
  then have "convert_timestamp_to_local (dt entry) tz = Inr None"
    by (cases "dt entry"; cases tz) (auto simp add: convert_timestamp_to_local_def)
  then show "build_rows (entry # rest) tz = build_rows rest tz"
    by simp
qed

lemma sample_instants:
  "in_datetime_range 1730700000 \<and> in_datetime_range (1730700000 + 19800)
   \<and> dt (sample_entry None) = None"
  by (simp add: in_datetime_range_def sample_entry_def)

theorem local_time_exact_witness:
  "in_datetime_range 1730700000 \<and> in_datetime_range (1730700000 + 19800)
   \<and> (\<exists>v. convert_timestamp_to_local (Some 1730700000) (Some 19800) = Inr (Some v)
          \<and> timestamp_of v = 1730700000 + 19800)
   \<and> dt (sample_entry None) = None
   \<and> build_rows [sample_entry None, sample_entry (Some 1730700000)] (Some 19800)
       = build_rows [sample_entry (Some 1730700000)] (Some 19800)"
  using local_time_exact [of 1730700000 19800 "Some 19800" None "sample_entry None"
      "[sample_entry (Some 1730700000)]"] sample_instants
  by blast

lemma year_of_parts:
  "fst (ymd_of_parts a b c d r)
     = 400 * a + 100 * b + 4 * c + d + (if d = 4 \<or> b = 4 then 0 else 1)"
  by (simp add: ymd_of_parts_def Let_def)

lemma ord2ymd_year_range:
  assumes "1 \<le> n" "n \<le> MAXORDINAL"
  shows "1 \<le> fst (ord2ymd n) \<and> fst (ord2ymd n) \<le> 9999"
proof -
  define a where "a = (n - 1) div 146097"
  define b where "b = (n - 1) mod 146097 div 36524"
  define c where "c = (n - 1) mod 146097 mod 36524 div 1461"
  define d where "d = (n - 1) mod 146097 mod 36524 mod 1461 div 365"
  define r where "r = (n - 1) mod 146097 mod 36524 mod 1461 mod 365"
  note p = ord_parts [of n, folded a_def b_def c_def d_def r_def]
  define e where "e = (if d = 4 \<or> b = 4 then 0 else 1 :: int)"
  have y: "fst (ord2ymd n) = 400 * a + 100 * b + 4 * c + d + e"
    unfolding ord2ymd_parts year_of_parts e_def a_def b_def c_def d_def r_def by (rule refl)
  have e: "0 \<le> e" "e \<le> 1" "d = 4 \<Longrightarrow> e = 0" "b = 4 \<Longrightarrow> e = 0" "d \<noteq> 4 \<Longrightarrow> b \<noteq> 4 \<Longrightarrow> e = 1"
    by (simp_all add: e_def)
  have a0: "0 \<le> a" unfolding a_def using assms(1) by (simp add: pos_imp_zdiv_nonneg_iff)
  have "n - 1 \<le> 3652058" using assms(2) by (simp add: MAXORDINAL_def)
  then have "a \<le> 3652058 div 146097" unfolding a_def by (intro zdiv_mono1) simp_all
  then have a24: "a \<le> 24" by simp
  have low: "1 \<le> fst (ord2ymd n)"
  proof (cases "d = 4 \<or> b = 4")
    case True
    then show ?thesis unfolding y using a0 p(2) p(4) p(6) e(1) by (cases "b = 4") auto
  next
    case False
    then have "e = 1" using e(5) by simp
    then show ?thesis unfolding y using a0 p(2) p(4) p(6) by linarith
  qed
  have up: "fst (ord2ymd n) \<le> 9999"
  proof (cases "a \<le> 23")
    case True
    then show ?thesis unfolding y using p(3) p(5) p(7) e(2) by linarith
  next
    case False
    then have a: "a = 24" using a24 by linarith
    have rest: "36524 * b + 1461 * c + 365 * d + r \<le> 145730"
      using p(1) a \<open>n - 1 \<le> 3652058\<close> by linarith
    then have b3: "b \<le> 3" using p(4) p(6) p(8) by linarith
    show ?thesis
    proof (cases "b = 3")
      case True
      show ?thesis
      proof (cases "c = 24")
        case c: True
        have "d \<le> 2" using rest True c p(8) by linarith
        then show ?thesis unfolding y using a True c e(2) by linarith
      next
        case False
        then have "c \<le> 23" using p(5) by linarith
        then show ?thesis
        proof (cases "d = 4")
          case True
          then show ?thesis unfolding y using a \<open>b = 3\<close> \<open>c \<le> 23\<close> e(3) by simp
        next
          case False
          then have "d \<le> 3" using p(7) by linarith
          then show ?thesis unfolding y using a \<open>b = 3\<close> \<open>c \<le> 23\<close> e(2) by linarith
        qed
      qed
    next
      case False
      then have "b \<le> 2" using b3 by linarith
      then show ?thesis unfolding y using a p(5) p(7) e(2) by linarith
    qed
  qed
  show ?thesis using low up by simp
qed

lemma date_of_combine:
  "date_of (combine (ord2ymd n) s)
     = \<lparr>year = fst (ord2ymd n), month = fst (snd (ord2ymd n)), day = snd (snd (ord2ymd n))\<rparr>"
  by (cases "ord2ymd n") (simp add: date_of_def combine_def)

lemma valid_date_of_combine:
  assumes "1 \<le> n" "n \<le> MAXORDINAL"
  shows "valid_date (date_of (combine (ord2ymd n) s))"
  using ord2ymd_year_range [OF assms] ord2ymd_correct(1) [of n]
  by (simp add: date_of_combine valid_date_def)


lemma local_time_form:
  assumes "convert_timestamp_to_local ts tz = Inr (Some v)"
  shows "\<exists>t z. ts = Some t \<and> tz = Some z
           \<and> v = combine (ord2ymd ((t + z) div 86400 + 719163)) ((t + z) mod 86400)
           \<and> 1 \<le> (t + z) div 86400 + 719163 \<and> (t + z) div 86400 + 719163 \<le> MAXORDINAL"
proof -
  from assms obtain t z where tz: "ts = Some t" "tz = Some z"
    by (cases ts; cases tz) (auto simp add: convert_timestamp_to_local_def)
  from assms tz obtain u td where
    u: "utcfromtimestamp t = Inr u" and td: "timedelta_of_seconds z = Inr td"
    and v: "datetime_add u td = Inr v"
    by (auto simp add: convert_timestamp_to_local_def split: sum.splits)
  define total where "total = hour u * 3600 + minute u * 60 + second u + seconds td"
  define n where "n = toordinal u + days td + total div 86400"
  have f: "v = combine (ord2ymd n) (total mod 86400)" "0 < n" "n \<le> MAXORDINAL"
    using v by (simp_all add: datetime_add_def Let_def total_def n_def split: if_splits)
  have "timestamp_of v = t + z"
    using assms tz local_time_is_sum by simp
  then have "(n - 719163) * 86400 + total mod 86400 = t + z"
    unfolding f(1) by (simp add: timestamp_of_combine)
  then have e: "t + z = 86400 * (n - 719163) + total mod 86400" by linarith
  have "(t + z) div 86400 = n - 719163"
    by (rule int_div_pos_eq [OF e]) simp_all
  moreover have "(t + z) mod 86400 = total mod 86400"
    by (rule int_mod_pos_eq [OF e]) simp_all
  ultimately show ?thesis using f tz by simp
qed

lemma local_date_valid:
  assumes "convert_timestamp_to_local ts tz = Inr (Some v)"
  shows "valid_date (date_of v)"
  using local_time_form [OF assms] valid_date_of_combine by auto

section \<open>Properties of the grouping\<close>

lemma set_unique_seen: "set (unique_seen seen xs) = set xs - set seen"
  by (induction xs arbitrary: seen) auto


lemma filter_other_key:
  "d \<noteq> f r \<Longrightarrow> filter (\<lambda>x. f x = d) (r # rs) = filter (\<lambda>x. f x = d) rs"
  by simp








lemma convert_some_not_none:
  "convert_timestamp_to_local (Some t) (Some z) \<noteq> Inr None"
  by (simp add: convert_timestamp_to_local_def split: sum.splits)

lemma build_rows_entries:
  "build_rows items (Some z) = Inr rows \<Longrightarrow>
   list_all2 (\<lambda>i r. \<exists>v. convert_timestamp_to_local (dt i) (Some z) = Inr (Some v)
                        \<and> make_row i v = Inr r)
     (filter (\<lambda>i. dt i \<noteq> None) items) rows"
proof (induction items arbitrary: rows)
  case Nil
  then show ?case by simp
next
  case (Cons i items)
  show ?case
  proof (cases "dt i")
    case None
    then have "convert_timestamp_to_local (dt i) (Some z) = Inr None"
      by (simp add: convert_timestamp_to_local_def)
    then show ?thesis using Cons None by simp
  next
    case (Some t)
    then obtain v where v: "convert_timestamp_to_local (dt i) (Some z) = Inr (Some v)"
      using Cons.prems convert_some_not_none [of t z]
      by (cases "convert_timestamp_to_local (Some t) (Some z)") (auto split: option.splits)
    then obtain r rs where r: "make_row i v = Inr r" "build_rows items (Some z) = Inr rs"
      "rows = r # rs"
      using Cons.prems by (auto split: sum.splits)
    then show ?thesis using Cons.IH [OF r(2)] v Some by auto
  qed
qed



lemma make_row_date: "make_row i v = Inr r \<Longrightarrow> FilterDate r = date_of v"
  by (auto simp add: make_row_def Let_def split: sum.splits)

lemma rows_valid_dates:
  assumes "build_rows items (Some z) = Inr rows"
  shows "list_all valid_date (map FilterDate rows)"
proof -
  have "list_all2 (\<lambda>i r. \<exists>v. convert_timestamp_to_local (dt i) (Some z) = Inr (Some v)
                        \<and> make_row i v = Inr r)
     (filter (\<lambda>i. dt i \<noteq> None) items) rows"
    using assms by (rule build_rows_entries)
  then have "\<forall>r\<in>set rows. valid_date (FilterDate r)"
    using local_date_valid make_row_date
    by (fastforce simp add: list_all2_conv_all_nth in_set_conv_nth)
  then show ?thesis by (simp add: list_all_iff)
qed






lemma sample_rows_built:
  "build_rows (get_default [] (entries sample_forecast)) (Some 0) = Inr sample_rows"
  by code_simp





section \<open>Properties of the tab titles\<close>

lemma digit_cases: "k < 10 \<Longrightarrow> k \<in> {0, 1, 2, 3, 4, 5, 6, 7, 8, 9 :: nat}"
  by auto

lemma digit_char_props:
  assumes "k < 10"
  shows "is_digit (digit_char k)" "digit_val (digit_char k) = k" "digit_char k \<noteq> CHR ''-''"
  using digit_cases [OF assms]
  by (auto simp add: is_digit_def digit_val_def digit_char_def)

declare decimal.simps [simp del]

lemma decimal_1: "n < 10 \<Longrightarrow> decimal n = [digit_char n]"
  by (subst decimal.simps) simp

lemma decimal_2:
  assumes "10 \<le> n" "n < 100"
  shows "decimal n = [digit_char (n div 10), digit_char (n mod 10)]"
proof -
  have "n div 10 < 10" using assms by presburger
  then show ?thesis using assms by (subst decimal.simps) (simp add: decimal_1)
qed

lemma div_bounds:
  fixes n :: nat
  shows "k * 10 \<le> n \<Longrightarrow> k \<le> n div 10" and "n < k * 10 \<Longrightarrow> n div 10 < k"
  by (simp_all add: less_mult_imp_div_less)

lemma decimal_3:
  assumes "100 \<le> n" "n < 1000"
  shows "decimal n = [digit_char (n div 100), digit_char (n div 10 mod 10), digit_char (n mod 10)]"
proof -
  have a: "10 \<le> n div 10" "n div 10 < 100"
    using assms div_bounds [of 10 n] div_bounds(2) [of n 100] by simp_all
  have b: "n div 10 div 10 = n div 100"
    using div_mult2_eq [of n 10 10] by simp
  have "\<not> n < 10" using assms by simp
  then have "decimal n = decimal (n div 10) @ [digit_char (n mod 10)]"
    by (subst decimal.simps) simp
  then show ?thesis by (simp add: decimal_2 [OF a] b)
qed

lemma decimal_4:
  assumes "1000 \<le> n" "n < 10000"
  shows "decimal n = [digit_char (n div 1000), digit_char (n div 100 mod 10),
                digit_char (n div 10 mod 10), digit_char (n mod 10)]"
proof -
  have a: "100 \<le> n div 10" "n div 10 < 1000"
    using assms div_bounds(1) [of 100 n] div_bounds(2) [of n 1000] by simp_all
  have b: "n div 10 div 100 = n div 1000" "n div 10 div 10 = n div 100"
    using div_mult2_eq [of n 10 100] div_mult2_eq [of n 10 10] by simp_all
  have "\<not> n < 10" using assms by simp
  then have "decimal n = decimal (n div 10) @ [digit_char (n mod 10)]"
    by (subst decimal.simps) simp
  then show ?thesis by (simp add: decimal_3 [OF a] b)
qed

lemma zeros: "replicate 1 c = [c]" "replicate 2 c = [c, c]" "replicate 3 c = [c, c, c]"
  by (simp_all add: eval_nat_numeral)

lemma digit_char_0: "digit_char 0 = CHR ''0''"
  by (simp add: digit_char_def)

lemma zero_pad_2:
  assumes "0 \<le> n" "n < 100"
  shows "zero_pad 2 n = [digit_char (nat n div 10), digit_char (nat n mod 10)]"
proof (cases "nat n < 10")
  case True
  then have "decimal (nat n) = [digit_char (nat n)]" by (rule decimal_1)
  then show ?thesis using True
    by (simp add: zero_pad_def Let_def zeros digit_char_0)
next
  case False
  then have "decimal (nat n) = [digit_char (nat n div 10), digit_char (nat n mod 10)]"
    using assms by (intro decimal_2) linarith+
  then show ?thesis by (simp add: zero_pad_def Let_def)
qed

lemma zero_pad_4:
  assumes "0 \<le> n" "n < 10000"
  shows "zero_pad 4 n = [digit_char (nat n div 1000), digit_char (nat n div 100 mod 10),
                         digit_char (nat n div 10 mod 10), digit_char (nat n mod 10)]"
proof -
  define k where "k = nat n"
  have k: "k < 10000" using assms by (simp add: k_def)
  consider "k < 10" | "10 \<le> k" "k < 100" | "100 \<le> k" "k < 1000" | "1000 \<le> k"
    by linarith
  then have "replicate (4 - length (decimal k)) (CHR ''0'') @ decimal k
     = [digit_char (k div 1000), digit_char (k div 100 mod 10),
        digit_char (k div 10 mod 10), digit_char (k mod 10)]"
  proof cases
    case 1
    then have "k div 1000 = 0" "k div 100 = 0" "k div 10 = 0" by simp_all
    then show ?thesis using 1 by (simp add: decimal_1 zeros digit_char_0)
  next
    case 2
    then have "k div 1000 = 0" "k div 100 = 0" "k div 10 < 10"
      using div_bounds(2) [of k 10] by simp_all
    then show ?thesis using 2 by (simp add: decimal_2 zeros digit_char_0)
  next
    case 3
    then have "k div 1000 = 0" "k div 100 < 10"
      using div_bounds(2) [of k 100] div_bounds(2) [of "k div 10" 10]
        div_mult2_eq [of k 10 10] by simp_all
    then show ?thesis using 3 by (simp add: decimal_3 zeros digit_char_0)
  next
    case 4
    then show ?thesis using k by (simp add: decimal_4)
  qed
  then show ?thesis by (simp add: zero_pad_def Let_def k_def)
qed

lemma digits_of_4:
  fixes k :: nat
  assumes "k < 10000"
  shows "k div 1000 < 10"
    and "1000 * (k div 1000) + 100 * (k div 100 mod 10) + 10 * (k div 10 mod 10) + k mod 10 = k"
proof -
  show "k div 1000 < 10" using assms by (simp add: less_mult_imp_div_less)
  have a: "k = 10 * (k div 10) + k mod 10" by simp
  have "k div 10 = 10 * (k div 10 div 10) + k div 10 mod 10" by simp
  then have b: "k div 10 = 10 * (k div 100) + k div 10 mod 10"
    using div_mult2_eq [of k 10 10] by simp
  have "k div 100 = 10 * (k div 100 div 10) + k div 100 mod 10" by simp
  then have c: "k div 100 = 10 * (k div 1000) + k div 100 mod 10"
    using div_mult2_eq [of k 100 10] by simp
  show "1000 * (k div 1000) + 100 * (k div 100 mod 10) + 10 * (k div 10 mod 10) + k mod 10 = k"
    using a b c by linarith
qed

lemma parse_decimal_4:
  assumes "a < 10" "b < 10" "c < 10" "e < 10"
  shows "parse_decimal [digit_char a, digit_char b, digit_char c, digit_char e]
           = int (1000 * a + 100 * b + 10 * c + e)"
  using assms by (simp add: parse_decimal_def digit_char_props(2))

lemma parse_decimal_2:
  assumes "a < 10" "b < 10"
  shows "parse_decimal [digit_char a, digit_char b] = int (10 * a + b)"
  using assms by (simp add: parse_decimal_def digit_char_props(2))

lemma days_in_month_le:
  "1 \<le> m \<Longrightarrow> m \<le> 12 \<Longrightarrow> days_in_month y m \<le> 31"
proof -
  assume "1 \<le> m" "m \<le> 12"
  then have "m = 1 \<or> m = 2 \<or> m = 3 \<or> m = 4 \<or> m = 5 \<or> m = 6 \<or> m = 7
    \<or> m = 8 \<or> m = 9 \<or> m = 10 \<or> m = 11 \<or> m = 12"
    by arith
  then show ?thesis
    by (auto simp add: days_in_month_def DAYS_IN_MONTH_def)
qed

lemma strptime_str_date:
  assumes "valid_date d"
  shows "strptime_Ymd (str_date d)
           = Inr \<lparr>year = year d, month = month d, day = day d,
                  hour = 0, minute = 0, second = 0\<rparr>"
proof -
  have v: "1 \<le> year d" "year d \<le> 9999" "1 \<le> month d" "month d \<le> 12" "1 \<le> day d"
    "day d \<le> days_in_month (year d) (month d)"
    using assms by (simp_all add: valid_date_def valid_ymd_def)
  have dd: "day d \<le> 31" using v days_in_month_le [of "month d" "year d"] by linarith
  define y where "y = nat (year d)"
  define m where "m = nat (month d)"
  define e where "e = nat (day d)"
  have r: "y < 10000" "m < 100" "e < 100" "int y = year d" "int m = month d" "int e = day d"
    using v dd by (simp_all add: y_def m_def e_def)
  have zy: "zero_pad 4 (year d) = [digit_char (y div 1000), digit_char (y div 100 mod 10),
                         digit_char (y div 10 mod 10), digit_char (y mod 10)]"
    unfolding y_def using v by (intro zero_pad_4) linarith+
  have zm: "zero_pad 2 (month d) = [digit_char (m div 10), digit_char (m mod 10)]"
    unfolding m_def using v by (intro zero_pad_2) linarith+
  have zd: "zero_pad 2 (day d) = [digit_char (e div 10), digit_char (e mod 10)]"
    unfolding e_def using v dd by (intro zero_pad_2) linarith+
  have s: "str_date d = [digit_char (y div 1000), digit_char (y div 100 mod 10),
                         digit_char (y div 10 mod 10), digit_char (y mod 10), CHR ''-'',
                         digit_char (m div 10), digit_char (m mod 10), CHR ''-'',
                         digit_char (e div 10), digit_char (e mod 10)]"
    by (simp add: str_date_def zy zm zd)
  have lt: "y div 1000 < 10" "y div 100 mod 10 < 10" "y div 10 mod 10 < 10" "y mod 10 < 10"
    "m div 10 < 10" "m mod 10 < 10" "e div 10 < 10" "e mod 10 < 10"
    using r digits_of_4(1) [of y] by (simp_all add: less_mult_imp_div_less)
  have py: "parse_decimal [digit_char (y div 1000), digit_char (y div 100 mod 10),
                         digit_char (y div 10 mod 10), digit_char (y mod 10)] = year d"
    using parse_decimal_4 [OF lt(1-4)] digits_of_4(2) [OF r(1)] r(4) by simp
  have pm: "parse_decimal [digit_char (m div 10), digit_char (m mod 10)] = month d"
    using parse_decimal_2 [OF lt(5,6)] r(5) by simp
  have pd: "parse_decimal [digit_char (e div 10), digit_char (e mod 10)] = day d"
    using parse_decimal_2 [OF lt(7,8)] r(6) by simp
  have dg: "list_all is_digit [digit_char (y div 1000), digit_char (y div 100 mod 10),
                         digit_char (y div 10 mod 10), digit_char (y mod 10),
                         digit_char (m div 10), digit_char (m mod 10),
                         digit_char (e div 10), digit_char (e mod 10)]"
    using lt by (simp add: digit_char_props(1))
  show ?thesis
    unfolding s strptime_Ymd_def
    using py pm pd dg v by (simp add: Let_def)
qed

lemma weekday_of_parsed:
  "strftime_A \<lparr>year = year d, month = month d, day = day d, hour = 0, minute = 0, second = 0\<rparr>
     = DAY_NAMES ! nat ((toordinal d + 6) mod 7)"
  by (simp add: strftime_A_def weekday_def toordinal_def)

lemma tab_title_expected:
  assumes "valid_date d"
  shows "tab_title i d = Inr (expected_title i d)"
  using strptime_str_date [OF assms]
  by (simp add: tab_title_def expected_title_def weekday_of_parsed strftime_b_d_def)

lemma tab_titles_from_expected:
  "list_all valid_date ds \<Longrightarrow>
     tab_titles_from i ds = Inr (map (\<lambda>(j, d). expected_title j d) (enumerate i ds))"
  by (induction ds arbitrary: i) (simp_all add: tab_title_expected)

lemma weekday_of_instant:
  assumes "utcfromtimestamp t = Inr v"
  shows "weekday (date_of v) = (t div 86400 + 3) mod 7"
proof -
  have "in_datetime_range t" using assms utcfromtimestamp_out_of_range [of t] by auto
  then have v: "v = combine (ord2ymd (t div 86400 + 719163)) (t mod 86400)"
    using assms utcfromtimestamp_in_range by simp
  have "toordinal (date_of v) = toordinal v"
    by (simp add: toordinal_def date_of_def)
  then have "toordinal (date_of v) = t div 86400 + 719163"
    unfolding v by (simp add: toordinal_combine)
  then have "weekday (date_of v) = (t div 86400 + 3 + 7 * 102738) mod 7"
    by (simp add: weekday_def)
  then show ?thesis by (simp only: mod_mult_self2)
qed

lemma pipeline_titles:
  assumes "build_rows items (Some z) = Inr rows"
  shows "tab_titles (unique (map FilterDate rows))
           = Inr (map (\<lambda>(i, d). expected_title i d) (enumerate 0 (unique (map FilterDate rows))))"
proof -
  have "list_all valid_date (map FilterDate rows)"
    using assms by (rule rows_valid_dates)
  then have "list_all valid_date (unique (map FilterDate rows))"
    by (simp add: list_all_iff unique_def set_unique_seen)
  then show ?thesis
    using tab_titles_from_expected [of "unique (map FilterDate rows)" 0]
    by (simp add: tab_titles_def)
qed

text \<open>
  C3: the tab titles depend on the list of dates only, not on a clock. For every list
  of dates, the title of the first is \<open>Today\<close>, of the second \<open>Tomorrow\<close>, and of
  every later one the name of the day of the week of its date, each followed by
  the abbreviated month and the two-digit day in parentheses; the detour through
  \<open>str(date)\<close> and \<open>strptime\<close> never raises. The day of the week is an index into
  the seven names, and it is the right one: for the date of an instant it counts the
  days since 1970-01-01, a Thursday. The dates of the rows that \<open>display_forecast\<close>
  builds are such dates, so its titles are the expected ones.
\<close>

theorem tab_titles_positional:
  "(list_all valid_date ds
      \<longrightarrow> tab_titles ds = Inr (map (\<lambda>(i, d). expected_title i d) (enumerate 0 ds)))
   \<and> 0 \<le> weekday d \<and> weekday d < 7
   \<and> (utcfromtimestamp t = Inr v \<longrightarrow> weekday (date_of v) = (t div 86400 + 3) mod 7)
   \<and> (build_rows items (Some z) = Inr rows
        \<longrightarrow> tab_titles (unique (map FilterDate rows))
            = Inr (map (\<lambda>(i, d). expected_title i d)
                    (enumerate 0 (unique (map FilterDate rows)))))"
  using tab_titles_from_expected [of ds 0] weekday_of_instant [of t v]
    pipeline_titles [of items z rows]
  by (simp add: tab_titles_def weekday_def)

lemma sample_dates_valid: "list_all valid_date sample_dates"
  by code_simp

lemma sample_titles:
  "map (\<lambda>(i, d). expected_title i d) (enumerate 0 sample_dates)
     = [''Today (Nov 04)'', ''Tomorrow (Nov 05)'', ''Wednesday (Nov 06)'']"
  by code_simp

lemma sample_rows_titles:
  "map (\<lambda>(i, d). expected_title i d) (enumerate 0 (unique (map FilterDate sample_rows)))
     = [''Today (Nov 04)'', ''Tomorrow (Nov 05)'']"
  by code_simp

lemma sample_instant:
  "utcfromtimestamp 1730700000
     = Inr \<lparr>year = 2024, month = 11, day = 4, hour = 6, minute = 0, second = 0\<rparr>"
  by code_simp

theorem tab_titles_positional_witness:
  "list_all valid_date sample_dates
   \<and> tab_titles sample_dates = Inr [''Today (Nov 04)'', ''Tomorrow (Nov 05)'', ''Wednesday (Nov 06)'']
   \<and> utcfromtimestamp 1730700000
        = Inr \<lparr>year = 2024, month = 11, day = 4, hour = 6, minute = 0, second = 0\<rparr>
   \<and> weekday (date_of \<lparr>year = 2024, month = 11, day = 4, hour = 6, minute = 0, second = 0\<rparr>)
        = (1730700000 div 86400 + 3) mod 7
   \<and> build_rows (get_default [] (entries sample_forecast)) (Some 0) = Inr sample_rows
   \<and> tab_titles (unique (map FilterDate sample_rows))
        = Inr [''Today (Nov 04)'', ''Tomorrow (Nov 05)'']"
  using tab_titles_positional [of sample_dates "hd sample_dates" 1730700000
      "\<lparr>year = 2024, month = 11, day = 4, hour = 6, minute = 0, second = 0\<rparr>"
      "get_default [] (entries sample_forecast)" 0 sample_rows]
    sample_dates_valid sample_titles sample_instant sample_rows_built sample_rows_titles
  by simp

end
